theory Spec2Isabelle
  imports Complex_Main "HOL-Library.AList" "HOL-Library.Sublist"
    "HOL-Library.Char_ord" "HOL-Library.List_Lexorder"
begin

section \<open>Data model (types/compliance.ts, types/crew.ts)\<close>

text \<open>
  Conventions of the embedding.
  \<^item> A JavaScript \<open>number\<close> field is a \<open>real\<close>: the comparisons and sums of the
    engine are read over the reals (finite values; rounding is not modelled).
  \<^item> An ISO-8601 string that the code hands to \<open>new Date(s)\<close> is represented by the time
    value \<open>new Date(s).getTime()\<close> yields: \<open>Some ms\<close> (milliseconds since the epoch),
    or \<open>None\<close> for a string that does not parse (\<open>NaN\<close>, an Invalid Date).
  \<^item> Free-text fields built by template strings (\<open>description\<close>, \<open>recommendation\<close>,
    notification \<open>message\<close>) decide nothing and are left out.
  \<^item> Readings of the wall clock and of \<open>Math.random\<close> are inputs (\<open>Ambient\<close>).
\<close>

type_synonym isoTime = "int option"

datatype ViolationSeverity = Blocking | Warning | Advisory

record ComplianceViolation =
  category :: string
  rule :: string
  severity :: ViolationSeverity
  currentValue :: "real option"
  limitValue :: "real option"

record LegalityCheck =
  isLegal :: bool
  violations :: "ComplianceViolation list"
  warnings :: "ComplianceViolation list"
  checksPerformed :: "string list"
  timestamp :: isoTime
  auditLogId :: string

record Part117Limits =
  maxFlightDutyPeriod :: real
  maxFlightTime :: real
  minRestPeriod :: real
  extendedRestPeriod :: real
  maxFlightHours28Days :: real
  maxFlightHours365Days :: real
  maxDutyHours168Hours :: real
  woclStart :: string
  woclEnd :: string

record FlightSegment =
  segmentFlightNumber :: string
  departureUtc :: isoTime
  arrivalUtc :: isoTime
  flightTimeHours :: real
  origin :: string
  destination :: string

record DutyPeriod =
  startTimeUtc :: isoTime
  endTimeUtc :: isoTime
  reportTimeUtc :: isoTime
  releaseTimeUtc :: isoTime
  flights :: "FlightSegment list"
  totalDutyHours :: real
  totalFlightHours :: real

datatype CrewStateType = DUTY | REST | RESERVE | OFF | SICK | VACATION

text \<open>
  Field names are global to a theory, so a name that two interfaces share is prefixed in
  all but one of them: \<open>CrewDutyState.reportTimeUtc\<close> is \<open>stateReportTimeUtc\<close>,
  \<open>FlightSegment.flightNumber\<close> is \<open>segmentFlightNumber\<close>, \<open>CrewMember.employeeId\<close> is
  \<open>memberId\<close>, \<open>CrewReplacement.employeeId\<close> is \<open>candidateId\<close>,
  \<open>CrewLogistics.currentLocation\<close> is \<open>logisticsLocation\<close>, and the fields of the search
  parameters start with \<open>req\<close>.
\<close>

record CrewDutyState =
  employeeId :: string
  stateStartUtc :: isoTime
  stateEndUtc :: isoTime
  stateType :: CrewStateType
  currentLocation :: string
  dutyHoursCumulative :: real
  restHoursCumulative :: real
  flightHoursMonth :: real
  flightHoursYear :: real
  lastWoclExposure :: "isoTime option"
  consecutiveDutyDays :: real
  assignedFlights :: "string list"
  stateReportTimeUtc :: "isoTime option"

record Ambient =
  nowUtc :: isoTime
  auditId :: string

section \<open>LegalityEngine (services/legality-engine.ts)\<close>

definition part117Limits :: Part117Limits where
  "part117Limits =
     \<lparr>maxFlightDutyPeriod = 13, maxFlightTime = 9, minRestPeriod = 10,
      extendedRestPeriod = 12, maxFlightHours28Days = 100, maxFlightHours365Days = 1000,
      maxDutyHours168Hours = 60, woclStart = ''02:00'', woclEnd = ''06:00''\<rparr>"

definition checkFlightDutyPeriod :: "DutyPeriod \<Rightarrow> ComplianceViolation option" where
  "checkFlightDutyPeriod duty =
     (let fdpHours = totalDutyHours duty in
      if fdpHours > maxFlightDutyPeriod part117Limits
      then Some \<lparr>category = ''part117'', rule = ''117.25(d)'', severity = Blocking,
                 currentValue = Some fdpHours,
                 limitValue = Some (maxFlightDutyPeriod part117Limits)\<rparr>
      else None)"

definition checkFlightTime :: "DutyPeriod \<Rightarrow> ComplianceViolation option" where
  "checkFlightTime duty =
     (let flightHours = totalFlightHours duty in
      if flightHours > maxFlightTime part117Limits
      then Some \<lparr>category = ''part117'', rule = ''117.11(a)'', severity = Blocking,
                 currentValue = Some flightHours,
                 limitValue = Some (maxFlightTime part117Limits)\<rparr>
      else None)"

text \<open>
  \<open>(nextDutyStart.getTime() - lastDutyEnd.getTime()) / (1000 * 60 * 60)\<close>; \<open>None\<close> is the
  \<open>NaN\<close> that an Invalid Date on either side gives.
\<close>

definition restHours :: "CrewDutyState \<Rightarrow> DutyPeriod \<Rightarrow> real option" where
  "restHours crewState proposedDuty =
     (case (startTimeUtc proposedDuty, stateEndUtc crewState) of
        (Some nextDutyStart, Some lastDutyEnd) \<Rightarrow>
          Some (real_of_int (nextDutyStart - lastDutyEnd) / (1000 * 60 * 60))
      | _ \<Rightarrow> None)"

definition requiredRest :: "CrewDutyState \<Rightarrow> real" where
  "requiredRest crewState =
     (if consecutiveDutyDays crewState \<ge> 3
      then extendedRestPeriod part117Limits
      else minRestPeriod part117Limits)"

text \<open>A comparison with \<open>NaN\<close> is false, so an unparsable instant gives no violation.\<close>

definition checkRestRequirements ::
  "CrewDutyState \<Rightarrow> DutyPeriod \<Rightarrow> ComplianceViolation option" where
  "checkRestRequirements crewState proposedDuty =
     (case restHours crewState proposedDuty of
        None \<Rightarrow> None
      | Some h \<Rightarrow>
          if h < requiredRest crewState
          then Some \<lparr>category = ''part117'', rule = ''117.25(b)'', severity = Blocking,
                     currentValue = Some h,
                     limitValue = Some (requiredRest crewState)\<rparr>
          else None)"

definition checkCumulativeLimits ::
  "CrewDutyState \<Rightarrow> DutyPeriod \<Rightarrow> ComplianceViolation list" where
  "checkCumulativeLimits crewState proposedDuty =
     (let projected28DayHours = flightHoursMonth crewState + totalFlightHours proposedDuty;
          projectedYearHours = flightHoursYear crewState + totalFlightHours proposedDuty
      in (if projected28DayHours > maxFlightHours28Days part117Limits
          then [\<lparr>category = ''part117'', rule = ''117.23(b)'', severity = Blocking,
                  currentValue = Some projected28DayHours,
                  limitValue = Some (maxFlightHours28Days part117Limits)\<rparr>]
          else [])
         @
         (if projectedYearHours > maxFlightHours365Days part117Limits
          then [\<lparr>category = ''part117'', rule = ''117.23(b)'', severity = Blocking,
                  currentValue = Some projectedYearHours,
                  limitValue = Some (maxFlightHours365Days part117Limits)\<rparr>]
          else []))"

text \<open>\<open>Date.prototype.getUTCHours\<close>: the hour of the day of a time value, floored.\<close>

definition getUTCHours :: "int \<Rightarrow> int" where
  "getUTCHours t = (t div 3600000) mod 24"

definition checkWoclExposure :: "DutyPeriod \<Rightarrow> ComplianceViolation option" where
  "checkWoclExposure duty =
     (case startTimeUtc duty of
        None \<Rightarrow> None
      | Some dutyStart \<Rightarrow>
          (let dutyHour = getUTCHours dutyStart in
           if dutyHour \<ge> 2 \<and> dutyHour \<le> 6
           then Some \<lparr>category = ''fatigue_risk'', rule = ''FRMS_WOCL'', severity = Warning,
                      currentValue = None, limitValue = None\<rparr>
           else None))"

definition assessFatigueRisk ::
  "CrewDutyState \<Rightarrow> DutyPeriod \<Rightarrow> ComplianceViolation list" where
  "assessFatigueRisk crewState proposedDuty =
     (if consecutiveDutyDays crewState \<ge> 5
      then [\<lparr>category = ''fatigue_risk'', rule = ''FRMS_CONSECUTIVE_DUTY'',
              severity = Advisory, currentValue = None, limitValue = None\<rparr>]
      else [])
     @
     (if totalDutyHours proposedDuty > 11
      then [\<lparr>category = ''fatigue_risk'', rule = ''FRMS_LONG_DUTY'',
              severity = Advisory, currentValue = None, limitValue = None\<rparr>]
      else [])"

text \<open>\<open>if (x) xs.push(x)\<close> for a nullable finding.\<close>

definition pushIf :: "'a list \<Rightarrow> 'a option \<Rightarrow> 'a list" where
  "pushIf xs x = (case x of None \<Rightarrow> xs | Some v \<Rightarrow> xs @ [v])"

definition part117Violations ::
  "CrewDutyState \<Rightarrow> DutyPeriod \<Rightarrow> ComplianceViolation list" where
  "part117Violations crewState proposedDuty =
     pushIf (pushIf (pushIf [] (checkFlightDutyPeriod proposedDuty))
                    (checkFlightTime proposedDuty))
            (checkRestRequirements crewState proposedDuty)
     @ checkCumulativeLimits crewState proposedDuty"

text \<open>
  \<open>validateDuty\<close>; the caller supplies \<open>checkCategories\<close> (the source's default is
  \<open>['part117']\<close>). The ambient readings fill \<open>timestamp\<close> and \<open>auditLogId\<close>.
\<close>

definition validateDuty ::
  "Ambient \<Rightarrow> CrewDutyState \<Rightarrow> DutyPeriod \<Rightarrow> string list \<Rightarrow> LegalityCheck" where
  "validateDuty amb crewState proposedDuty checkCategories =
     (let violations1 =
            (if ''part117'' \<in> set checkCategories
             then part117Violations crewState proposedDuty else []);
          warnings1 =
            (if ''part117'' \<in> set checkCategories
             then pushIf [] (checkWoclExposure proposedDuty) else []);
          warnings2 =
            (if ''fatigue_risk'' \<in> set checkCategories
             then warnings1 @ assessFatigueRisk crewState proposedDuty else warnings1)
      in \<lparr>isLegal = (length (filter (\<lambda>v. severity v = Blocking) violations1) = 0),
          violations = violations1,
          warnings = warnings2,
          checksPerformed = map (\<lambda>c. c) checkCategories,
          timestamp = nowUtc amb,
          auditLogId = auditId amb\<rparr>)"


section \<open>CrewStateService (services/crew-state-service.ts)\<close>

text \<open>
  \<open>CrewMember\<close> keeps the fields the service reads; \<open>aircraftTypes\<close> is
  \<open>qualifications.aircraftTypes\<close>. The contact data and the other qualification lists
  are read nowhere in the service.
\<close>

record CrewMember =
  memberId :: string
  firstName :: string
  lastName :: string
  position :: string
  base :: string
  seniority :: real
  aircraftTypes :: "string list"

record CrewLogistics =
  logisticsLocation :: string
  positioningRequired :: bool
  positioningFlight :: "string option"
  readyTimeUtc :: isoTime
  travelTimeMinutes :: real

record CrewCost =
  payCredit :: real
  perDiem :: real
  deadheadCost :: real
  hotelCost :: real
  overtimePremium :: real
  totalUsd :: real

record CrewReplacement =
  candidateId :: string
  name :: string
  legality :: LegalityCheck
  logistics :: CrewLogistics
  cost :: CrewCost
  rankScore :: real

text \<open>
  The two \<open>Map\<close>s of the service. A JavaScript \<open>Map\<close> iterates in insertion order and
  \<open>set\<close> on a present key keeps the key's place, which is what \<open>AList.update\<close> does on
  an association list.
\<close>

record CrewStateService =
  crewStates :: "(string \<times> CrewDutyState) list"
  crewMembers :: "(string \<times> CrewMember) list"

record FindReplacementParams =
  reqFlightNumber :: string
  reqPosition :: string
  reqDepartureTimeUtc :: isoTime
  reqBase :: string
  reqAircraftType :: string
  reqMaxResults :: "int option"
  reqIncludeDeadheadOptions :: "bool option"

datatype error = RangeError

definition getCrewStatus :: "CrewStateService \<Rightarrow> string \<Rightarrow> CrewDutyState option" where
  "getCrewStatus svc employeeId' = map_of (crewStates svc) employeeId'"

definition getCrewAtLocation :: "CrewStateService \<Rightarrow> string \<Rightarrow> CrewDutyState list" where
  "getCrewAtLocation svc location =
     filter (\<lambda>state. currentLocation state = location) (map snd (crewStates svc))"

definition getCrewByState :: "CrewStateService \<Rightarrow> CrewStateType \<Rightarrow> CrewDutyState list" where
  "getCrewByState svc stateType' =
     filter (\<lambda>state. stateType state = stateType') (map snd (crewStates svc))"

definition updateCrewState :: "CrewStateService \<Rightarrow> CrewDutyState \<Rightarrow> CrewStateService" where
  "updateCrewState svc state =
     svc\<lparr>crewStates := AList.update (employeeId state) state (crewStates svc)\<rparr>"

definition addCrewMember :: "CrewStateService \<Rightarrow> CrewMember \<Rightarrow> CrewStateService" where
  "addCrewMember svc member =
     svc\<lparr>crewMembers := AList.update (memberId member) member (crewMembers svc)\<rparr>"

text \<open>
  \<open>new Date(v)\<close> on a time value clips it to the range of a Date (\<open>\<plusminus>8.64e15\<close> ms), and
  \<open>toISOString\<close> throws a \<open>RangeError\<close> on an Invalid Date. \<open>plusMs d k\<close> is
  \<open>new Date(d).getTime() + k\<close>, which stays \<open>NaN\<close> on an Invalid Date.
\<close>

definition newDate :: "int option \<Rightarrow> isoTime" where
  "newDate v =
     (case v of None \<Rightarrow> None
      | Some t \<Rightarrow> if \<bar>t\<bar> \<le> 8640000000000000 then Some t else None)"

definition toISOString :: "isoTime \<Rightarrow> error + isoTime" where
  "toISOString d = (case d of None \<Rightarrow> Inl RangeError | Some t \<Rightarrow> Inr (Some t))"

definition plusMs :: "isoTime \<Rightarrow> int \<Rightarrow> int option" where
  "plusMs d k = map_option (\<lambda>t. t + k) d"

text \<open>The proposed duty that \<open>findReplacementCrew\<close> builds in each round of its loop.\<close>

definition proposedDutyFor :: "isoTime \<Rightarrow> error + DutyPeriod" where
  "proposedDutyFor departureTimeUtc =
     (case toISOString (newDate (plusMs departureTimeUtc (5 * 60 * 60 * 1000))) of
        Inl e \<Rightarrow> Inl e
      | Inr endTime \<Rightarrow>
     (case toISOString (newDate (plusMs departureTimeUtc (- (1 * 60 * 60 * 1000)))) of
        Inl e \<Rightarrow> Inl e
      | Inr reportTime \<Rightarrow>
     (case toISOString (newDate (plusMs departureTimeUtc 19800000)) of
        Inl e \<Rightarrow> Inl e
      | Inr releaseTime \<Rightarrow>
          Inr \<lparr>startTimeUtc = departureTimeUtc, endTimeUtc = endTime,
               reportTimeUtc = reportTime, releaseTimeUtc = releaseTime, flights = [],
               totalDutyHours = 13 / 2, totalFlightHours = 5\<rparr>)))"

definition calculateCrewCost :: "CrewDutyState \<Rightarrow> DutyPeriod \<Rightarrow> CrewCost" where
  "calculateCrewCost state duty =
     (let payCredit' = totalFlightHours duty;
          perDiem' = totalDutyHours duty * (5 / 2);
          deadheadCost' = 0;
          hotelCost' = 0;
          overtimePremium' = (if flightHoursMonth state > 75 then payCredit' * 50 else 0)
      in \<lparr>payCredit = payCredit', perDiem = perDiem', deadheadCost = deadheadCost',
          hotelCost = hotelCost', overtimePremium = overtimePremium',
          totalUsd = (payCredit' * 100) + perDiem' + overtimePremium'\<rparr>)"

definition calculateRankScore :: "CrewDutyState \<Rightarrow> LegalityCheck \<Rightarrow> CrewCost \<Rightarrow> real" where
  "calculateRankScore state legality' cost' =
     (let score0 = 100;
          score1 = score0 - real (length (warnings legality')) * 5;
          score2 = (if totalUsd cost' > 1000 then score1 - 10 else score1);
          score3 = (if overtimePremium cost' > 0 then score2 - 15 else score2);
          score4 = (if dutyHoursCumulative state < 20 then score3 + 10 else score3);
          score5 = (if consecutiveDutyDays state < 3 then score4 + 5 else score4)
      in max 0 (min 100 score5))"

text \<open>
  The \<open>for (const reserve of reserves)\<close> loop. \<open>amb i\<close> is the reading of the clock and
  of the random source at the \<open>i\<close>-th call of \<open>validateDuty\<close>.
\<close>

fun collectCandidates ::
  "CrewStateService \<Rightarrow> (nat \<Rightarrow> Ambient) \<Rightarrow> nat \<Rightarrow> isoTime \<Rightarrow> CrewDutyState list
   \<Rightarrow> error + CrewReplacement list" where
  "collectCandidates svc amb i departureTimeUtc [] = Inr []"
| "collectCandidates svc amb i departureTimeUtc (reserve # rest) =
     (case map_of (crewMembers svc) (employeeId reserve) of
        None \<Rightarrow> collectCandidates svc amb i departureTimeUtc rest
      | Some member \<Rightarrow>
          (case proposedDutyFor departureTimeUtc of
             Inl e \<Rightarrow> Inl e
           | Inr proposedDuty \<Rightarrow>
               (let legalityCheck =
                      validateDuty (amb i) reserve proposedDuty [''part117'', ''fatigue_risk'']
                in if \<not> isLegal legalityCheck
                   then collectCandidates svc amb (Suc i) departureTimeUtc rest
                   else
                     (let cost' = calculateCrewCost reserve proposedDuty;
                          rankScore' = calculateRankScore reserve legalityCheck cost'
                      in case collectCandidates svc amb (Suc i) departureTimeUtc rest of
                           Inl e \<Rightarrow> Inl e
                         | Inr candidates \<Rightarrow>
                             Inr (\<lparr>candidateId = memberId member,
                                   name = lastName member @ '', '' @ firstName member,
                                   legality = legalityCheck,
                                   logistics =
                                     \<lparr>logisticsLocation = currentLocation reserve,
                                      positioningRequired = False,
                                      positioningFlight = None,
                                      readyTimeUtc = departureTimeUtc,
                                      travelTimeMinutes = 0\<rparr>,
                                   cost = cost',
                                   rankScore = rankScore'\<rparr> # candidates)))))"

text \<open>
  \<open>candidates.sort((a, b) => b.rankScore - a.rankScore)\<close>: \<open>Array.prototype.sort\<close> is a
  stable sort, here by descending \<open>rankScore\<close>.
\<close>

definition sortByRankScore :: "CrewReplacement list \<Rightarrow> CrewReplacement list" where
  "sortByRankScore candidates = sort_key (\<lambda>c. - rankScore c) candidates"

text \<open>\<open>xs.slice(0, n)\<close>: a negative \<open>n\<close> counts from the end of the array.\<close>

definition slice0 :: "'a list \<Rightarrow> int \<Rightarrow> 'a list" where
  "slice0 xs n =
     (let len = int (length xs);
          final = (if n < 0 then max (len + n) 0 else min n len)
      in take (nat final) xs)"

definition reservePool :: "CrewStateService \<Rightarrow> FindReplacementParams \<Rightarrow> CrewDutyState list" where
  "reservePool svc params =
     filter (\<lambda>state.
        case map_of (crewMembers svc) (employeeId state) of
          None \<Rightarrow> False
        | Some member \<Rightarrow>
            base member = reqBase params \<and> position member = reqPosition params \<and>
            reqAircraftType params \<in> set (aircraftTypes member))
       (getCrewByState svc RESERVE)"

text \<open>
  \<open>maxResults = 5\<close> in the destructuring of \<open>params\<close>: the default of an omitted cap.
  The cap is the integer that \<open>slice\<close> makes of the number it is given.
\<close>

definition maxResultsOf :: "FindReplacementParams \<Rightarrow> int" where
  "maxResultsOf params = (case reqMaxResults params of None \<Rightarrow> 5 | Some n \<Rightarrow> n)"

text \<open>
  \<open>findReplacementCrew\<close>. The parameters \<open>flightNumber\<close> and \<open>includeDeadheadOptions\<close>
  are not among the names the function takes out of \<open>params\<close>.
\<close>

definition findReplacementCrew ::
  "CrewStateService \<Rightarrow> (nat \<Rightarrow> Ambient) \<Rightarrow> FindReplacementParams
   \<Rightarrow> error + CrewReplacement list" where
  "findReplacementCrew svc amb params =
     (let maxResults = maxResultsOf params;
          reserves = reservePool svc params
      in case collectCandidates svc amb 0 (reqDepartureTimeUtc params) reserves of
           Inl e \<Rightarrow> Inl e
         | Inr candidates \<Rightarrow> Inr (slice0 (sortByRankScore candidates) maxResults))"

section \<open>executeCrewSwap (tools/execute-crew-swap.ts)\<close>

text \<open>
  The fields \<open>position\<close>, \<open>timestamp\<close> and \<open>status\<close> of the tool's interfaces are
  prefixed (\<open>swapPosition\<close>, \<open>previewTimestamp\<close>, \<open>notificationStatus\<close>, ...).
\<close>

record ExecuteCrewSwapInput =
  flightNumber :: string
  swapPosition :: string
  originalCrewId :: string
  replacementCrewId :: string
  reason :: string
  effectiveTimeUtc :: isoTime
  notifyCrews :: "bool option"
  dryRun :: "bool option"

datatype SwapAction = Create | Update | Delete

datatype TransactionStatus = TxPending | TxCompleted | TxFailed | TxRolledBack

text \<open>What \<open>beforeState\<close> and \<open>afterState\<close> of a change (typed \<open>any\<close>) hold in this tool.\<close>

datatype SwapPayload =
    Null
  | Assignment string string string isoTime
  | DutyStateSnapshot CrewDutyState

record SwapChange =
  entity :: string
  entityId :: string
  action :: SwapAction
  beforeState :: SwapPayload
  afterState :: SwapPayload

datatype NotificationChannel = Sms | Email | AppPush

datatype NotificationStatus = Pending | Sent | Failed

record NotificationRecord =
  recipientId :: string
  channel :: NotificationChannel
  sentAt :: "isoTime option"
  notificationStatus :: NotificationStatus

record SwapCost =
  originalCrewCost :: real
  replacementCrewCost :: real
  additionalCost :: real
  totalImpactUsd :: real
  breakdownOvertimePremium :: real
  breakdownCalloutPay :: real
  breakdownDeadheadCost :: real

record SwapPreview =
  previewTransactionId :: string
  previewTimestamp :: isoTime
  previewStatus :: TransactionStatus
  previewDryRun :: bool
  previewMessage :: string
  previewChanges :: "SwapChange list"
  previewNotifications :: "NotificationRecord list"
  previewCostImpact :: SwapCost
  previewRollbackAvailable :: bool

record SwapExecuted =
  executedTransactionId :: string
  executedTimestamp :: isoTime
  executedStatus :: TransactionStatus
  executedFlightNumber :: string
  executedPosition :: string
  executedChanges :: "(string \<times> string \<times> SwapAction) list"
  executedNotifications :: "NotificationRecord list"
  executedCostImpact :: SwapCost
  executedRollbackAvailable :: bool
  executedRollbackDeadline :: isoTime
  executedMessage :: string

datatype SwapResult =
    SwapNotFound string string
  | SwapDryRun SwapPreview
  | SwapDone SwapExecuted

text \<open>
  The readings the tool takes from its surroundings: the generated transaction id, the
  clock at entry, the clock at each notification marked as sent, and \<open>Date.now()\<close> at
  the end. The clock is always a valid instant, so \<open>toISOString\<close> does not throw on it;
  \<open>Map.set\<close> does not throw either, so the \<open>catch\<close> branch of the tool is never taken
  and has no counterpart here.
\<close>

record SwapAmbient =
  generatedTransactionId :: string
  clockAtEntry :: isoTime
  clockAtSend :: "nat \<Rightarrow> isoTime"
  clockAtReturn :: int

definition calculateSwapCost :: "CrewDutyState \<Rightarrow> CrewDutyState \<Rightarrow> SwapCost" where
  "calculateSwapCost originalCrew replacementCrew =
     (let originalCostPerHour = (100 :: real);
          replacementCostPerHour =
            (if flightHoursMonth replacementCrew > 75 then 150 else 100 :: real)
      in \<lparr>originalCrewCost = 0,
          replacementCrewCost = 500,
          additionalCost = (if replacementCostPerHour > originalCostPerHour then 250 else 0),
          totalImpactUsd = (if replacementCostPerHour > originalCostPerHour then 250 else 0),
          breakdownOvertimePremium =
            (if flightHoursMonth replacementCrew > 75 then 250 else 0),
          breakdownCalloutPay = 0,
          breakdownDeadheadCost = 0\<rparr>)"

definition newOriginalState :: "ExecuteCrewSwapInput \<Rightarrow> CrewDutyState \<Rightarrow> CrewDutyState" where
  "newOriginalState input originalCrew =
     originalCrew\<lparr>stateType := RESERVE,
       assignedFlights := filter (\<lambda>f. f \<noteq> flightNumber input) (assignedFlights originalCrew)\<rparr>"

definition newReplacementState ::
  "ExecuteCrewSwapInput \<Rightarrow> CrewDutyState \<Rightarrow> CrewDutyState" where
  "newReplacementState input replacementCrew =
     replacementCrew\<lparr>stateType := DUTY,
       assignedFlights := assignedFlights replacementCrew @ [flightNumber input],
       stateReportTimeUtc := Some (effectiveTimeUtc input)\<rparr>"

definition swapChanges ::
  "ExecuteCrewSwapInput \<Rightarrow> isoTime \<Rightarrow> CrewDutyState \<Rightarrow> CrewDutyState \<Rightarrow> SwapChange list" where
  "swapChanges input timestamp' originalCrew replacementCrew =
     [\<lparr>entity = ''crew_assignment'',
       entityId = flightNumber input @ ''-'' @ originalCrewId input,
       action = Delete,
       beforeState = Assignment (flightNumber input) (swapPosition input)
                       (originalCrewId input) (stateStartUtc originalCrew),
       afterState = Null\<rparr>,
      \<lparr>entity = ''crew_assignment'',
       entityId = flightNumber input @ ''-'' @ replacementCrewId input,
       action = Create,
       beforeState = Null,
       afterState = Assignment (flightNumber input) (swapPosition input)
                      (replacementCrewId input) timestamp'\<rparr>,
      \<lparr>entity = ''duty_state'',
       entityId = originalCrewId input,
       action = Update,
       beforeState = DutyStateSnapshot originalCrew,
       afterState = DutyStateSnapshot (newOriginalState input originalCrew)\<rparr>,
      \<lparr>entity = ''duty_state'',
       entityId = replacementCrewId input,
       action = Update,
       beforeState = DutyStateSnapshot replacementCrew,
       afterState = DutyStateSnapshot (newReplacementState input replacementCrew)\<rparr>]"

definition swapNotifications :: "ExecuteCrewSwapInput \<Rightarrow> NotificationRecord list" where
  "swapNotifications input =
     (if (case notifyCrews input of None \<Rightarrow> True | Some b \<Rightarrow> b)
      then [\<lparr>recipientId = originalCrewId input, channel = AppPush, sentAt = None,
              notificationStatus = Pending\<rparr>,
            \<lparr>recipientId = replacementCrewId input, channel = AppPush, sentAt = None,
              notificationStatus = Pending\<rparr>]
      else [])"

definition executeCrewSwap ::
  "ExecuteCrewSwapInput \<Rightarrow> SwapAmbient \<Rightarrow> CrewStateService
   \<Rightarrow> SwapResult \<times> CrewStateService" where
  "executeCrewSwap input amb crewStateService =
     (let transactionId = generatedTransactionId amb;
          timestamp' = clockAtEntry amb
      in case getCrewStatus crewStateService (originalCrewId input) of
           None \<Rightarrow>
             (SwapNotFound
                (''Original crew member '' @ originalCrewId input @ '' not found'')
                transactionId,
              crewStateService)
         | Some originalCrew \<Rightarrow>
      (case getCrewStatus crewStateService (replacementCrewId input) of
           None \<Rightarrow>
             (SwapNotFound
                (''Replacement crew member '' @ replacementCrewId input @ '' not found'')
                transactionId,
              crewStateService)
         | Some replacementCrew \<Rightarrow>
      (let changes = swapChanges input timestamp' originalCrew replacementCrew;
           notifications = swapNotifications input
       in if (case dryRun input of None \<Rightarrow> False | Some b \<Rightarrow> b)
          then
            (SwapDryRun
               \<lparr>previewTransactionId = transactionId,
                previewTimestamp = timestamp',
                previewStatus = TxPending,
                previewDryRun = True,
                previewMessage = ''Dry run completed successfully - no changes made'',
                previewChanges = changes,
                previewNotifications = notifications,
                previewCostImpact = calculateSwapCost originalCrew replacementCrew,
                previewRollbackAvailable = False\<rparr>,
             crewStateService)
          else
            (let svc1 = updateCrewState crewStateService
                          (newOriginalState input originalCrew);
                 svc2 = updateCrewState svc1 (newReplacementState input replacementCrew);
                 sent = map (\<lambda>(i, n). n\<lparr>sentAt := Some (clockAtSend amb i),
                                          notificationStatus := Sent\<rparr>)
                          (enumerate 0 notifications)
             in (SwapDone
                   \<lparr>executedTransactionId = transactionId,
                    executedTimestamp = timestamp',
                    executedStatus = TxCompleted,
                    executedFlightNumber = flightNumber input,
                    executedPosition = swapPosition input,
                    executedChanges =
                      map (\<lambda>c. (entity c, entityId c, action c)) changes,
                    executedNotifications = sent,
                    executedCostImpact = calculateSwapCost originalCrew replacementCrew,
                    executedRollbackAvailable = True,
                    executedRollbackDeadline = Some (clockAtReturn amb + 30 * 60 * 1000),
                    executedMessage = ''Crew swap executed successfully''\<rparr>,
                 svc2)))))"

section \<open>Reference definitions and example inputs\<close>

text \<open>
  The categories that \<open>validateDuty\<close> acts on: the two names it tests
  \<open>checkCategories\<close> for.
\<close>

definition engineCategory :: "string \<Rightarrow> bool" where
  "engineCategory c \<longleftrightarrow> c = ''part117'' \<or> c = ''fatigue_risk''"

text \<open>
  The specification's reading of \<open>checksPerformed\<close>: the categories that were evaluated.
\<close>

definition specEvaluatedCategories :: "string list \<Rightarrow> string list" where
  "specEvaluatedCategories cs = filter engineCategory cs"

text \<open>
  The specification's circadian-low test: the time of day of an instant lies in the
  configured window \<open>woclStart\<close>--\<open>woclEnd\<close> (\<open>HH:MM\<close>), a window with
  \<open>woclStart > woclEnd\<close> wrapping over midnight.
\<close>

fun digitOf :: "char \<Rightarrow> int" where
  "digitOf c = int (of_char c) - 48"

fun hhmmMinutes :: "string \<Rightarrow> int" where
  "hhmmMinutes [h1, h2, sep, m1, m2] = (10 * digitOf h1 + digitOf h2) * 60 + 10 * digitOf m1 + digitOf m2"
| "hhmmMinutes _ = 0"

definition specWithinWoclWindow :: "Part117Limits \<Rightarrow> int \<Rightarrow> bool" where
  "specWithinWoclWindow limits t =
     (let m = (t div 60000) mod 1440;
          a = hhmmMinutes (woclStart limits);
          b = hhmmMinutes (woclEnd limits)
      in if a \<le> b then a \<le> m \<and> m \<le> b else a \<le> m \<or> m \<le> b)"

text \<open>
  The specification's ranking order: descending score, equal scores by ascending candidate
  identifier (strings compared character by character, as JavaScript compares them).
\<close>

definition specRankedOrder :: "CrewReplacement list \<Rightarrow> bool" where
  "specRankedOrder rs =
     sorted_wrt (\<lambda>a b. rankScore a > rankScore b
                   \<or> (rankScore a = rankScore b \<and> candidateId a < candidateId b)) rs"

text \<open>
  The reserves that the search takes from the store, said of one stored state: the state
  is RESERVE and the member record under its \<open>employeeId\<close> has the requested home base,
  position and aircraft type. The current location is not part of it.
\<close>

definition eligibleReserve ::
  "CrewStateService \<Rightarrow> FindReplacementParams \<Rightarrow> CrewDutyState \<Rightarrow> bool" where
  "eligibleReserve svc p r \<longleftrightarrow>
     stateType r = RESERVE \<and>
     (case map_of (crewMembers svc) (employeeId r) of
        None \<Rightarrow> False
      | Some m \<Rightarrow> base m = reqBase p \<and> position m = reqPosition p \<and>
                  reqAircraftType p \<in> set (aircraftTypes m))"

text \<open>
  The reserve passes the legality filter of the search: the proposed duty of the
  departure time is built and its verdict is legal.
\<close>

definition legalReserve :: "Ambient \<Rightarrow> FindReplacementParams \<Rightarrow> CrewDutyState \<Rightarrow> bool" where
  "legalReserve a p r \<longleftrightarrow>
     (case proposedDutyFor (reqDepartureTimeUtc p) of
        Inl e \<Rightarrow> False
      | Inr duty \<Rightarrow> isLegal (validateDuty a r duty [''part117'', ''fatigue_risk'']))"

text \<open>The score that the search gives a reserve.\<close>

definition reserveScore :: "Ambient \<Rightarrow> FindReplacementParams \<Rightarrow> CrewDutyState \<Rightarrow> real" where
  "reserveScore a p r =
     (case proposedDutyFor (reqDepartureTimeUtc p) of
        Inl e \<Rightarrow> 0
      | Inr duty \<Rightarrow>
          calculateRankScore r (validateDuty a r duty [''part117'', ''fatigue_risk''])
            (calculateCrewCost r duty))"

text \<open>
  Candidate \<open>c\<close> was made from the stored state \<open>r\<close>: it carries the identifier of the
  member record of \<open>r\<close> and the current location of \<open>r\<close>.
\<close>

definition cameFrom :: "CrewStateService \<Rightarrow> CrewReplacement \<Rightarrow> CrewDutyState \<Rightarrow> bool" where
  "cameFrom svc c r \<longleftrightarrow>
     (case map_of (crewMembers svc) (employeeId r) of
        None \<Rightarrow> False
      | Some m \<Rightarrow> candidateId c = memberId m \<and>
                  logisticsLocation (logistics c) = currentLocation r)"

text \<open>The store with every crew member moved to the location \<open>f\<close> gives.\<close>

definition relocate :: "(CrewDutyState \<Rightarrow> string) \<Rightarrow> CrewStateService \<Rightarrow> CrewStateService" where
  "relocate f svc =
     svc\<lparr>crewStates := map (\<lambda>(k, s). (k, s\<lparr>currentLocation := f s\<rparr>)) (crewStates svc)\<rparr>"

text \<open>
  The departure times from which the proposed duty can be built: a valid instant whose
  report time (one hour before) and release time (five and a half hours after) are
  within the range of a Date.
\<close>

definition dutyBuildable :: "isoTime \<Rightarrow> bool" where
  "dutyBuildable departureTimeUtc \<longleftrightarrow>
     (case departureTimeUtc of
        None \<Rightarrow> False
      | Some t \<Rightarrow> - 8640000000000000 + 3600000 \<le> t \<and> t \<le> 8640000000000000 - 19800000)"

text \<open>Inputs for the worked examples.\<close>

definition exampleState :: "real \<Rightarrow> real \<Rightarrow> isoTime \<Rightarrow> CrewDutyState" where
  "exampleState days monthHours lastEnd =
     \<lparr>employeeId = ''10002'', stateStartUtc = Some 0, stateEndUtc = lastEnd,
      stateType = RESERVE, currentLocation = ''ORD'', dutyHoursCumulative = 10,
      restHoursCumulative = 0, flightHoursMonth = monthHours, flightHoursYear = 500,
      lastWoclExposure = None, consecutiveDutyDays = days, assignedFlights = [],
      stateReportTimeUtc = None\<rparr>"

definition exampleDuty :: "isoTime \<Rightarrow> real \<Rightarrow> real \<Rightarrow> DutyPeriod" where
  "exampleDuty start dutyHours flightHours =
     \<lparr>startTimeUtc = start, endTimeUtc = start, reportTimeUtc = start,
      releaseTimeUtc = start, flights = [], totalDutyHours = dutyHours,
      totalFlightHours = flightHours\<rparr>"

definition exampleAmbient :: Ambient where
  "exampleAmbient = \<lparr>nowUtc = Some 0, auditId = ''audit_0''\<rparr>"

definition exampleReserve :: "string \<Rightarrow> string \<Rightarrow> real \<Rightarrow> real \<Rightarrow> CrewDutyState" where
  "exampleReserve i location monthHours days =
     (exampleState days monthHours (Some 0))\<lparr>employeeId := i, currentLocation := location\<rparr>"

definition exampleMember :: "string \<Rightarrow> string \<Rightarrow> CrewMember" where
  "exampleMember i homeBase =
     \<lparr>memberId = i, firstName = ''David'', lastName = ''Williams'', position = ''FO'',
      base = homeBase, seniority = 7, aircraftTypes = [''B737'', ''B738'']\<rparr>"

text \<open>
  A store of reserve first officers based at ORD, given as identifier, current location,
  flight hours of the month and consecutive duty days, in insertion order.
\<close>

definition exampleService ::
  "(string \<times> string \<times> real \<times> real) list \<Rightarrow> CrewStateService" where
  "exampleService crew =
     \<lparr>crewStates = map (\<lambda>(i, location, monthHours, days).
                        (i, exampleReserve i location monthHours days)) crew,
      crewMembers = map (\<lambda>(i, location, monthHours, days).
                        (i, exampleMember i ''ORD'')) crew\<rparr>"

definition exampleParams :: "isoTime \<Rightarrow> int option \<Rightarrow> bool option \<Rightarrow> FindReplacementParams" where
  "exampleParams departure cap deadheads =
     \<lparr>reqFlightNumber = ''AA1001'', reqPosition = ''FO'', reqDepartureTimeUtc = departure,
      reqBase = ''ORD'', reqAircraftType = ''B737'', reqMaxResults = cap,
      reqIncludeDeadheadOptions = deadheads\<rparr>"

definition exampleClock :: "nat \<Rightarrow> Ambient" where
  "exampleClock i = \<lparr>nowUtc = Some (int i), auditId = ''audit_0''\<rparr>"

definition exampleSwapInput :: "bool option \<Rightarrow> ExecuteCrewSwapInput" where
  "exampleSwapInput dry =
     \<lparr>flightNumber = ''AA1001'', swapPosition = ''FO'', originalCrewId = ''10005'',
      replacementCrewId = ''10002'', reason = ''sick call'',
      effectiveTimeUtc = Some 50400000, notifyCrews = None, dryRun = dry\<rparr>"

definition exampleSwapAmbient :: SwapAmbient where
  "exampleSwapAmbient =
     \<lparr>generatedTransactionId = ''swap_0'', clockAtEntry = Some 0,
      clockAtSend = (\<lambda>i. Some (int i)), clockAtReturn = 5\<rparr>"

section \<open>Properties of the legality engine\<close>

lemmas engine_defs =
  validateDuty_def part117Violations_def pushIf_def checkFlightDutyPeriod_def
  checkFlightTime_def checkRestRequirements_def restHours_def requiredRest_def
  checkCumulativeLimits_def checkWoclExposure_def getUTCHours_def assessFatigueRisk_def
  part117Limits_def exampleState_def exampleDuty_def exampleAmbient_def Let_def

lemma violations_validateDuty:
  "violations (validateDuty amb s d cs) =
     (if ''part117'' \<in> set cs then part117Violations s d else [])"
  by (simp add: validateDuty_def Let_def)

lemma warnings_validateDuty:
  "warnings (validateDuty amb s d cs) =
     (if ''part117'' \<in> set cs then pushIf [] (checkWoclExposure d) else [])
     @ (if ''fatigue_risk'' \<in> set cs then assessFatigueRisk s d else [])"
  by (simp add: validateDuty_def Let_def)

lemma isLegal_validateDuty:
  "isLegal (validateDuty amb s d cs) \<longleftrightarrow>
     (\<forall>v \<in> set (violations (validateDuty amb s d cs)). severity v \<noteq> Blocking)"
  by (simp add: validateDuty_def Let_def filter_empty_conv)

lemma checksPerformed_validateDuty:
  "checksPerformed (validateDuty amb s d cs) = cs"
  by (simp add: validateDuty_def Let_def)

lemma set_pushIf: "set (pushIf xs x) = set xs \<union> set_option x"
  by (cases x) (simp_all add: pushIf_def)

lemma set_part117Violations:
  "set (part117Violations s d) =
     set_option (checkFlightDutyPeriod d) \<union> set_option (checkFlightTime d)
     \<union> set_option (checkRestRequirements s d) \<union> set (checkCumulativeLimits s d)"
  by (simp add: part117Violations_def set_pushIf)

lemma checkFlightDutyPeriod_Some:
  "checkFlightDutyPeriod d = Some v \<longleftrightarrow>
     totalDutyHours d > 13 \<and>
     v = \<lparr>category = ''part117'', rule = ''117.25(d)'', severity = Blocking,
          currentValue = Some (totalDutyHours d), limitValue = Some 13\<rparr>"
  by (auto simp: checkFlightDutyPeriod_def part117Limits_def Let_def)

lemma checkFlightTime_Some:
  "checkFlightTime d = Some v \<longleftrightarrow>
     totalFlightHours d > 9 \<and>
     v = \<lparr>category = ''part117'', rule = ''117.11(a)'', severity = Blocking,
          currentValue = Some (totalFlightHours d), limitValue = Some 9\<rparr>"
  by (auto simp: checkFlightTime_def part117Limits_def Let_def)

lemma checkRestRequirements_Some:
  "checkRestRequirements s d = Some v \<longleftrightarrow>
     (\<exists>h. restHours s d = Some h \<and> h < requiredRest s \<and>
       v = \<lparr>category = ''part117'', rule = ''117.25(b)'', severity = Blocking,
            currentValue = Some h, limitValue = Some (requiredRest s)\<rparr>)"
  by (auto simp: checkRestRequirements_def split: option.splits)

lemma set_checkCumulativeLimits:
  "v \<in> set (checkCumulativeLimits s d) \<longleftrightarrow>
     (flightHoursMonth s + totalFlightHours d > 100 \<and>
      v = \<lparr>category = ''part117'', rule = ''117.23(b)'', severity = Blocking,
           currentValue = Some (flightHoursMonth s + totalFlightHours d),
           limitValue = Some 100\<rparr>)
     \<or> (flightHoursYear s + totalFlightHours d > 1000 \<and>
      v = \<lparr>category = ''part117'', rule = ''117.23(b)'', severity = Blocking,
           currentValue = Some (flightHoursYear s + totalFlightHours d),
           limitValue = Some 1000\<rparr>)"
  by (auto simp: checkCumulativeLimits_def part117Limits_def Let_def)

lemma checkWoclExposure_Some:
  "checkWoclExposure d = Some w \<longleftrightarrow>
     (\<exists>t. startTimeUtc d = Some t \<and> 2 \<le> getUTCHours t \<and> getUTCHours t \<le> 6) \<and>
     w = \<lparr>category = ''fatigue_risk'', rule = ''FRMS_WOCL'', severity = Warning,
          currentValue = None, limitValue = None\<rparr>"
  by (auto simp: checkWoclExposure_def Let_def split: option.splits)

lemma set_assessFatigueRisk:
  "w \<in> set (assessFatigueRisk s d) \<longleftrightarrow>
     (consecutiveDutyDays s \<ge> 5 \<and>
      w = \<lparr>category = ''fatigue_risk'', rule = ''FRMS_CONSECUTIVE_DUTY'',
           severity = Advisory, currentValue = None, limitValue = None\<rparr>)
     \<or> (totalDutyHours d > 11 \<and>
      w = \<lparr>category = ''fatigue_risk'', rule = ''FRMS_LONG_DUTY'',
           severity = Advisory, currentValue = None, limitValue = None\<rparr>)"
  by (auto simp: assessFatigueRisk_def)

lemma in_part117Violations:
  "v \<in> set (part117Violations s d) \<longleftrightarrow>
     checkFlightDutyPeriod d = Some v \<or> checkFlightTime d = Some v
     \<or> checkRestRequirements s d = Some v \<or> v \<in> set (checkCumulativeLimits s d)"
  by (auto simp: set_part117Violations)

lemma part117Violations_blocking:
  "v \<in> set (part117Violations s d) \<Longrightarrow> severity v = Blocking \<and> category v = ''part117''"
  by (auto simp: in_part117Violations checkFlightDutyPeriod_Some checkFlightTime_Some
      checkRestRequirements_Some set_checkCumulativeLimits)


text \<open>
  C1. For every crew state, proposed duty and category list, the verdict of
  \<open>validateDuty\<close> has \<open>isLegal\<close> true exactly when no entry of \<open>violations\<close> is
  blocking. Every finding of \<open>assessFatigueRisk\<close>, and every entry of \<open>warnings\<close>, has
  severity warning or advisory and category \<open>fatigue_risk\<close>; no entry of \<open>violations\<close>
  has that category; with \<open>fatigue_risk\<close> requested the fatigue findings are all in
  \<open>warnings\<close>; and requesting or dropping \<open>fatigue_risk\<close> never changes \<open>isLegal\<close>.
\<close>
theorem C1_isLegal_iff_no_blocking:
  "(isLegal (validateDuty amb s d cs) \<longleftrightarrow>
      (\<forall>v \<in> set (violations (validateDuty amb s d cs)). severity v \<noteq> Blocking))
   \<and> (\<forall>w \<in> set (assessFatigueRisk s d). severity w = Warning \<or> severity w = Advisory)
   \<and> (\<forall>w \<in> set (warnings (validateDuty amb s d cs)).
         category w = ''fatigue_risk'' \<and> (severity w = Warning \<or> severity w = Advisory))
   \<and> (\<forall>v \<in> set (violations (validateDuty amb s d cs)). category v \<noteq> ''fatigue_risk'')
   \<and> (''fatigue_risk'' \<in> set cs \<longrightarrow>
         set (assessFatigueRisk s d) \<subseteq> set (warnings (validateDuty amb s d cs)))
   \<and> isLegal (validateDuty amb s d (''fatigue_risk'' # cs)) = isLegal (validateDuty amb s d cs)
   \<and> isLegal (validateDuty amb s d (removeAll ''fatigue_risk'' cs))
       = isLegal (validateDuty amb s d cs)"
proof -
  have a: "isLegal (validateDuty amb s d cs) \<longleftrightarrow>
      (\<forall>v \<in> set (violations (validateDuty amb s d cs)). severity v \<noteq> Blocking)"
    by (rule isLegal_validateDuty)
  have b: "\<forall>w \<in> set (assessFatigueRisk s d). severity w = Warning \<or> severity w = Advisory"
    by (auto simp: set_assessFatigueRisk)
  have c: "\<forall>w \<in> set (warnings (validateDuty amb s d cs)).
         category w = ''fatigue_risk'' \<and> (severity w = Warning \<or> severity w = Advisory)"
    by (auto simp: warnings_validateDuty set_pushIf checkWoclExposure_Some
        set_assessFatigueRisk)
  have e: "\<forall>v \<in> set (violations (validateDuty amb s d cs)). category v \<noteq> ''fatigue_risk''"
    by (auto simp: violations_validateDuty dest: part117Violations_blocking)
  have f: "''fatigue_risk'' \<in> set cs \<longrightarrow>
         set (assessFatigueRisk s d) \<subseteq> set (warnings (validateDuty amb s d cs))"
    by (simp add: warnings_validateDuty)
  have g: "isLegal (validateDuty amb s d (''fatigue_risk'' # cs)) = isLegal (validateDuty amb s d cs)"
    by (simp add: isLegal_validateDuty violations_validateDuty)
  have h: "isLegal (validateDuty amb s d (removeAll ''fatigue_risk'' cs))
       = isLegal (validateDuty amb s d cs)"
    by (simp add: isLegal_validateDuty violations_validateDuty)
  from a b c e f g h show ?thesis by blast
qed

text \<open>
  A 14-hour duty for a crew member on the fifth consecutive day: one blocking violation,
  two advisories, not legal.
\<close>
theorem C1_isLegal_iff_no_blocking_witness:
  "\<not> isLegal (validateDuty exampleAmbient (exampleState 5 50 (Some 0))
        (exampleDuty (Some 75600000) 14 5) [''part117'', ''fatigue_risk''])
   \<and> map rule (violations (validateDuty exampleAmbient (exampleState 5 50 (Some 0))
        (exampleDuty (Some 75600000) 14 5) [''part117'', ''fatigue_risk''])) = [''117.25(d)'']
   \<and> map severity (warnings (validateDuty exampleAmbient (exampleState 5 50 (Some 0))
        (exampleDuty (Some 75600000) 14 5) [''part117'', ''fatigue_risk'']))
       = [Advisory, Advisory]"
  using C1_isLegal_iff_no_blocking [of exampleAmbient "exampleState 5 50 (Some 0)"
      "exampleDuty (Some 75600000) 14 5" "[''part117'', ''fatigue_risk'']"]
  by (simp add: engine_defs)

text \<open>
  C2. With \<open>part117\<close> among the categories, \<open>violations\<close> holds a finding of rule
  \<open>117.25(d)\<close> (duty length) exactly when \<open>totalDutyHours\<close> exceeds 13; that finding is
  blocking, with observed value \<open>totalDutyHours\<close> and limit 13; and whenever
  \<open>totalDutyHours\<close> exceeds 13 the verdict is not legal, whatever the crew state and the
  other checks.
\<close>
theorem C2_duty_length_violation:
  assumes "''part117'' \<in> set cs"
  shows "((\<exists>v \<in> set (violations (validateDuty amb s d cs)). rule v = ''117.25(d)'')
            \<longleftrightarrow> totalDutyHours d > 13)
    \<and> (\<forall>v \<in> set (violations (validateDuty amb s d cs)).
          rule v = ''117.25(d)'' \<longrightarrow>
            severity v = Blocking \<and> currentValue v = Some (totalDutyHours d)
            \<and> limitValue v = Some 13)
    \<and> (totalDutyHours d > 13 \<longrightarrow> \<not> isLegal (validateDuty amb s d cs))"
proof -
  have viol: "violations (validateDuty amb s d cs) = part117Violations s d"
    using assms by (simp add: violations_validateDuty)
  have a: "(\<exists>v \<in> set (part117Violations s d). rule v = ''117.25(d)'')
            \<longleftrightarrow> totalDutyHours d > 13"
    by (auto simp: set_part117Violations checkFlightDutyPeriod_def checkFlightTime_def
        checkRestRequirements_def checkCumulativeLimits_def part117Limits_def Let_def
        split: option.splits)
  have b: "\<forall>v \<in> set (part117Violations s d).
          rule v = ''117.25(d)'' \<longrightarrow>
            severity v = Blocking \<and> currentValue v = Some (totalDutyHours d)
            \<and> limitValue v = Some 13"
    by (auto simp: in_part117Violations checkFlightDutyPeriod_Some checkFlightTime_Some
        checkRestRequirements_Some set_checkCumulativeLimits)
  have c: "totalDutyHours d > 13 \<longrightarrow> \<not> isLegal (validateDuty amb s d cs)"
  proof
    assume "totalDutyHours d > 13"
    with a obtain v where "v \<in> set (part117Violations s d)" by blast
    then have "v \<in> set (violations (validateDuty amb s d cs)) \<and> severity v = Blocking"
      using viol part117Violations_blocking by simp
    then show "\<not> isLegal (validateDuty amb s d cs)"
      unfolding isLegal_validateDuty by blast
  qed
  from a b c show ?thesis unfolding viol by blast
qed

text \<open>Scenario B: a 14-hour duty with 9 flight hours.\<close>
theorem C2_duty_length_violation_witness:
  "''part117'' \<in> set [''part117'']
   \<and> violations (validateDuty exampleAmbient (exampleState 2 50 (Some 0))
        (exampleDuty (Some 75600000) 14 9) [''part117''])
      = [\<lparr>category = ''part117'', rule = ''117.25(d)'', severity = Blocking,
           currentValue = Some 14, limitValue = Some 13\<rparr>]
   \<and> \<not> isLegal (validateDuty exampleAmbient (exampleState 2 50 (Some 0))
        (exampleDuty (Some 75600000) 14 9) [''part117''])"
  using C2_duty_length_violation [of "[''part117'']" exampleAmbient "exampleState 2 50 (Some 0)"
      "exampleDuty (Some 75600000) 14 9"]
  by (simp add: engine_defs)

text \<open>
  C3. With \<open>part117\<close> among the categories: the required rest is 12 hours when
  \<open>consecutiveDutyDays\<close> is at least 3 and 10 hours otherwise; the observed rest is the
  proposed start minus \<open>stateEndUtc\<close>, in hours; \<open>violations\<close> holds a finding of rule
  \<open>117.25(b)\<close> exactly when the observed rest is below the required rest, and that finding
  is blocking with the observed and the required rest as its values and makes the verdict
  illegal. A negative observed rest gives the finding (the function is total: there is no
  failing branch), and a rest of 11 hours gives it exactly when \<open>consecutiveDutyDays\<close>
  is at least 3.
\<close>
theorem C3_rest_requirement:
  assumes "''part117'' \<in> set cs"
  shows "requiredRest s = (if consecutiveDutyDays s \<ge> 3 then 12 else 10)
    \<and> (\<forall>a b. startTimeUtc d = Some a \<and> stateEndUtc s = Some b \<longrightarrow>
          restHours s d = Some (real_of_int (a - b) / 3600000))
    \<and> ((\<exists>v \<in> set (violations (validateDuty amb s d cs)). rule v = ''117.25(b)'')
          \<longleftrightarrow> (\<exists>h. restHours s d = Some h \<and> h < requiredRest s))
    \<and> (\<forall>v \<in> set (violations (validateDuty amb s d cs)).
          rule v = ''117.25(b)'' \<longrightarrow>
            severity v = Blocking \<and> currentValue v = restHours s d
            \<and> limitValue v = Some (requiredRest s))
    \<and> (\<forall>h. restHours s d = Some h \<and> h < requiredRest s \<longrightarrow>
          \<not> isLegal (validateDuty amb s d cs))
    \<and> (\<forall>h. restHours s d = Some h \<and> h < 0 \<longrightarrow>
          (\<exists>v \<in> set (violations (validateDuty amb s d cs)). rule v = ''117.25(b)''))
    \<and> (restHours s d = Some 11 \<longrightarrow>
          ((\<exists>v \<in> set (violations (validateDuty amb s d cs)). rule v = ''117.25(b)'')
             \<longleftrightarrow> consecutiveDutyDays s \<ge> 3))"
proof -
  have viol: "violations (validateDuty amb s d cs) = part117Violations s d"
    using assms by (simp add: violations_validateDuty)
  have r: "requiredRest s = (if consecutiveDutyDays s \<ge> 3 then 12 else 10)"
    by (simp add: requiredRest_def part117Limits_def)
  have o: "\<forall>a b. startTimeUtc d = Some a \<and> stateEndUtc s = Some b \<longrightarrow>
          restHours s d = Some (real_of_int (a - b) / 3600000)"
    by (simp add: restHours_def)
  have a: "(\<exists>v \<in> set (part117Violations s d). rule v = ''117.25(b)'')
          \<longleftrightarrow> (\<exists>h. restHours s d = Some h \<and> h < requiredRest s)"
    by (auto simp: set_part117Violations checkFlightDutyPeriod_def checkFlightTime_def
        checkRestRequirements_def checkCumulativeLimits_def part117Limits_def Let_def
        split: option.splits)
  have b: "\<forall>v \<in> set (part117Violations s d).
          rule v = ''117.25(b)'' \<longrightarrow>
            severity v = Blocking \<and> currentValue v = restHours s d
            \<and> limitValue v = Some (requiredRest s)"
    by (auto simp: in_part117Violations checkFlightDutyPeriod_Some checkFlightTime_Some
        checkRestRequirements_Some set_checkCumulativeLimits)
  have c: "\<forall>h. restHours s d = Some h \<and> h < requiredRest s \<longrightarrow>
          \<not> isLegal (validateDuty amb s d cs)"
  proof (intro allI impI)
    fix h assume "restHours s d = Some h \<and> h < requiredRest s"
    with a obtain v where "v \<in> set (part117Violations s d)" by blast
    then have "v \<in> set (violations (validateDuty amb s d cs)) \<and> severity v = Blocking"
      using viol part117Violations_blocking by simp
    then show "\<not> isLegal (validateDuty amb s d cs)"
      unfolding isLegal_validateDuty by blast
  qed
  have n: "\<forall>h. restHours s d = Some h \<and> h < 0 \<longrightarrow>
          (\<exists>v \<in> set (part117Violations s d). rule v = ''117.25(b)'')"
  proof (intro allI impI)
    fix h assume h: "restHours s d = Some h \<and> h < 0"
    have "0 < requiredRest s" by (simp add: r)
    with h have "restHours s d = Some h \<and> h < requiredRest s" by simp
    with a show "\<exists>v \<in> set (part117Violations s d). rule v = ''117.25(b)''" by blast
  qed
  have e: "restHours s d = Some 11 \<longrightarrow>
          ((\<exists>v \<in> set (part117Violations s d). rule v = ''117.25(b)'')
             \<longleftrightarrow> consecutiveDutyDays s \<ge> 3)"
    unfolding a by (auto simp: r split: if_splits)
  from r o a b c n e show ?thesis unfolding viol by blast
qed

text \<open>
  An 11-hour gap is legal after 2 consecutive days and illegal after 3; a start 10 hours
  before the end of the previous state gives the finding with observed value \<open>-10\<close>.
\<close>
theorem C3_rest_requirement_witness:
  "''part117'' \<in> set [''part117'']
   \<and> restHours (exampleState 2 50 (Some 0)) (exampleDuty (Some 39600000) 6 4) = Some 11
   \<and> violations (validateDuty exampleAmbient (exampleState 2 50 (Some 0))
        (exampleDuty (Some 39600000) 6 4) [''part117'']) = []
   \<and> isLegal (validateDuty exampleAmbient (exampleState 2 50 (Some 0))
        (exampleDuty (Some 39600000) 6 4) [''part117''])
   \<and> violations (validateDuty exampleAmbient (exampleState 3 50 (Some 0))
        (exampleDuty (Some 39600000) 6 4) [''part117''])
      = [\<lparr>category = ''part117'', rule = ''117.25(b)'', severity = Blocking,
           currentValue = Some 11, limitValue = Some 12\<rparr>]
   \<and> \<not> isLegal (validateDuty exampleAmbient (exampleState 3 50 (Some 0))
        (exampleDuty (Some 39600000) 6 4) [''part117''])
   \<and> violations (validateDuty exampleAmbient (exampleState 2 50 (Some 75600000))
        (exampleDuty (Some 39600000) 6 4) [''part117''])
      = [\<lparr>category = ''part117'', rule = ''117.25(b)'', severity = Blocking,
           currentValue = Some (- 10), limitValue = Some 10\<rparr>]"
  using C3_rest_requirement [of "[''part117'']" "exampleState 3 50 (Some 0)"
      "exampleDuty (Some 39600000) 6 4" exampleAmbient]
  by (simp add: engine_defs)

text \<open>
  C4. With \<open>part117\<close> among the categories, \<open>violations\<close> holds a finding of rule
  \<open>117.23(b)\<close> with limit 100 exactly when \<open>flightHoursMonth + totalFlightHours\<close> exceeds
  100; that finding is blocking with the projected total as its observed value, and the
  verdict is then illegal. With 98 prior hours and 5 proposed hours, and every other
  check passing, the 28-day finding (103 against 100) is the only violation and the
  verdict is illegal; a projected total of exactly 100 gives no such finding.
\<close>
theorem C4_cap_28_day:
  assumes "''part117'' \<in> set cs"
  shows "((\<exists>v \<in> set (violations (validateDuty amb s d cs)).
             rule v = ''117.23(b)'' \<and> limitValue v = Some 100)
          \<longleftrightarrow> flightHoursMonth s + totalFlightHours d > 100)
    \<and> (\<forall>v \<in> set (violations (validateDuty amb s d cs)).
          rule v = ''117.23(b)'' \<and> limitValue v = Some 100 \<longrightarrow>
            severity v = Blocking
            \<and> currentValue v = Some (flightHoursMonth s + totalFlightHours d))
    \<and> (flightHoursMonth s + totalFlightHours d > 100 \<longrightarrow>
          \<not> isLegal (validateDuty amb s d cs))
    \<and> (flightHoursMonth s = 98 \<and> totalFlightHours d = 5 \<and> totalDutyHours d \<le> 13
        \<and> flightHoursYear s + totalFlightHours d \<le> 1000
        \<and> checkRestRequirements s d = None \<longrightarrow>
          violations (validateDuty amb s d cs)
            = [\<lparr>category = ''part117'', rule = ''117.23(b)'', severity = Blocking,
                 currentValue = Some 103, limitValue = Some 100\<rparr>]
          \<and> \<not> isLegal (validateDuty amb s d cs))
    \<and> (flightHoursMonth s + totalFlightHours d = 100 \<longrightarrow>
          \<not> (\<exists>v \<in> set (violations (validateDuty amb s d cs)).
                rule v = ''117.23(b)'' \<and> limitValue v = Some 100))"
proof -
  have viol: "violations (validateDuty amb s d cs) = part117Violations s d"
    using assms by (simp add: violations_validateDuty)
  have a: "(\<exists>v \<in> set (part117Violations s d).
             rule v = ''117.23(b)'' \<and> limitValue v = Some 100)
          \<longleftrightarrow> flightHoursMonth s + totalFlightHours d > 100"
    by (auto simp: set_part117Violations checkFlightDutyPeriod_def checkFlightTime_def
        checkRestRequirements_def checkCumulativeLimits_def part117Limits_def Let_def
        split: option.splits)
  have b: "\<forall>v \<in> set (part117Violations s d).
          rule v = ''117.23(b)'' \<and> limitValue v = Some 100 \<longrightarrow>
            severity v = Blocking
            \<and> currentValue v = Some (flightHoursMonth s + totalFlightHours d)"
    by (auto simp: in_part117Violations checkFlightDutyPeriod_Some checkFlightTime_Some
        checkRestRequirements_Some set_checkCumulativeLimits)
  have c: "flightHoursMonth s + totalFlightHours d > 100 \<longrightarrow>
          \<not> isLegal (validateDuty amb s d cs)"
  proof
    assume "flightHoursMonth s + totalFlightHours d > 100"
    with a obtain v where "v \<in> set (part117Violations s d)" by blast
    then have "v \<in> set (violations (validateDuty amb s d cs)) \<and> severity v = Blocking"
      using viol part117Violations_blocking by simp
    then show "\<not> isLegal (validateDuty amb s d cs)"
      unfolding isLegal_validateDuty by blast
  qed
  have e: "flightHoursMonth s = 98 \<and> totalFlightHours d = 5 \<and> totalDutyHours d \<le> 13
        \<and> flightHoursYear s + totalFlightHours d \<le> 1000
        \<and> checkRestRequirements s d = None \<longrightarrow>
          part117Violations s d
            = [\<lparr>category = ''part117'', rule = ''117.23(b)'', severity = Blocking,
                 currentValue = Some 103, limitValue = Some 100\<rparr>]"
    by (simp add: part117Violations_def pushIf_def checkFlightDutyPeriod_def
        checkFlightTime_def checkCumulativeLimits_def part117Limits_def Let_def)
  have f: "flightHoursMonth s + totalFlightHours d = 100 \<longrightarrow>
          \<not> (\<exists>v \<in> set (part117Violations s d).
                rule v = ''117.23(b)'' \<and> limitValue v = Some 100)"
    unfolding a by simp
  from a b c e f show ?thesis unfolding viol by (simp del: bex_simps ball_simps)
qed

text \<open>Scenario D, and the same duty for a crew member with 95 prior hours.\<close>
theorem C4_cap_28_day_witness:
  "''part117'' \<in> set [''part117'', ''fatigue_risk'']
   \<and> violations (validateDuty exampleAmbient (exampleState 2 98 (Some 0))
        (exampleDuty (Some 75600000) (13 / 2) 5) [''part117'', ''fatigue_risk''])
      = [\<lparr>category = ''part117'', rule = ''117.23(b)'', severity = Blocking,
           currentValue = Some 103, limitValue = Some 100\<rparr>]
   \<and> \<not> isLegal (validateDuty exampleAmbient (exampleState 2 98 (Some 0))
        (exampleDuty (Some 75600000) (13 / 2) 5) [''part117'', ''fatigue_risk''])
   \<and> violations (validateDuty exampleAmbient (exampleState 2 95 (Some 0))
        (exampleDuty (Some 75600000) (13 / 2) 5) [''part117'', ''fatigue_risk'']) = []
   \<and> isLegal (validateDuty exampleAmbient (exampleState 2 95 (Some 0))
        (exampleDuty (Some 75600000) (13 / 2) 5) [''part117'', ''fatigue_risk''])"
  using C4_cap_28_day [of "[''part117'', ''fatigue_risk'']" exampleAmbient "exampleState 2 98 (Some 0)"
      "exampleDuty (Some 75600000) (13 / 2) 5"]
  by (simp add: engine_defs)

text \<open>
  C5 as stated fails: the circadian-low check runs under \<open>part117\<close>, not under
  \<open>fatigue_risk\<close>. A start at 03:00 UTC, inside the configured window 02:00--06:00,
  evaluated with the category list \<open>['fatigue_risk']\<close>, gives no warning at all.
\<close>
theorem C5_wocl_counterexample:
  "specWithinWoclWindow part117Limits 10800000
   \<and> warnings (validateDuty exampleAmbient (exampleState 2 50 (Some (- 86400000)))
        (exampleDuty (Some 10800000) 6 4) [''fatigue_risk'']) = []"
  by (simp add: engine_defs specWithinWoclWindow_def)

text \<open>
  C5, amended. The circadian-low finding (rule \<open>FRMS_WOCL\<close>) has severity warning and
  is never among \<open>violations\<close>. When the category list includes \<open>part117\<close> and the UTC
  hour of the proposed start is 2, 3, 4 or 5, \<open>warnings\<close> holds that finding. When
  \<open>part117\<close> is not requested, or the start is not a valid instant, or its UTC hour is
  below 2 or above 6, no such finding is emitted. (The window is the fixed UTC band of
  the check; nothing is said about hour 6.)
\<close>
theorem C5_wocl_warning_amended:
  "(\<forall>w \<in> set (warnings (validateDuty amb s d cs)).
       rule w = ''FRMS_WOCL'' \<longrightarrow> severity w = Warning)
   \<and> (\<forall>v \<in> set (violations (validateDuty amb s d cs)). rule v \<noteq> ''FRMS_WOCL'')
   \<and> (\<forall>t. ''part117'' \<in> set cs \<and> startTimeUtc d = Some t
          \<and> 2 \<le> getUTCHours t \<and> getUTCHours t \<le> 5 \<longrightarrow>
        (\<exists>w \<in> set (warnings (validateDuty amb s d cs)). rule w = ''FRMS_WOCL''))
   \<and> (''part117'' \<notin> set cs \<or> startTimeUtc d = None
        \<or> (\<exists>t. startTimeUtc d = Some t \<and> (getUTCHours t < 2 \<or> 6 < getUTCHours t)) \<longrightarrow>
        \<not> (\<exists>w \<in> set (warnings (validateDuty amb s d cs)). rule w = ''FRMS_WOCL''))"
proof -
  have a: "\<forall>w \<in> set (warnings (validateDuty amb s d cs)).
       rule w = ''FRMS_WOCL'' \<longrightarrow> severity w = Warning"
    by (auto simp: warnings_validateDuty set_pushIf checkWoclExposure_Some
        set_assessFatigueRisk)
  have b: "\<forall>v \<in> set (violations (validateDuty amb s d cs)). rule v \<noteq> ''FRMS_WOCL''"
    by (auto simp: violations_validateDuty in_part117Violations checkFlightDutyPeriod_Some
        checkFlightTime_Some checkRestRequirements_Some set_checkCumulativeLimits)
  have c: "\<forall>t. ''part117'' \<in> set cs \<and> startTimeUtc d = Some t
          \<and> 2 \<le> getUTCHours t \<and> getUTCHours t \<le> 5 \<longrightarrow>
        (\<exists>w \<in> set (warnings (validateDuty amb s d cs)). rule w = ''FRMS_WOCL'')"
    by (auto simp: warnings_validateDuty pushIf_def checkWoclExposure_def Let_def)
  have e: "''part117'' \<notin> set cs \<or> startTimeUtc d = None
        \<or> (\<exists>t. startTimeUtc d = Some t \<and> (getUTCHours t < 2 \<or> 6 < getUTCHours t)) \<longrightarrow>
        \<not> (\<exists>w \<in> set (warnings (validateDuty amb s d cs)). rule w = ''FRMS_WOCL'')"
    by (auto simp: warnings_validateDuty set_pushIf checkWoclExposure_Some
        set_assessFatigueRisk)
  from a b c e show ?thesis by blast
qed

text \<open>A start at 03:00 UTC under \<open>part117\<close> is warned about and legal; 07:00 is not warned about.\<close>
theorem C5_wocl_warning_amended_witness:
  "''part117'' \<in> set [''part117''] \<and> getUTCHours 10800000 = 3
   \<and> warnings (validateDuty exampleAmbient (exampleState 2 50 (Some (- 86400000)))
        (exampleDuty (Some 10800000) 6 4) [''part117''])
      = [\<lparr>category = ''fatigue_risk'', rule = ''FRMS_WOCL'', severity = Warning,
           currentValue = None, limitValue = None\<rparr>]
   \<and> isLegal (validateDuty exampleAmbient (exampleState 2 50 (Some (- 86400000)))
        (exampleDuty (Some 10800000) 6 4) [''part117''])
   \<and> warnings (validateDuty exampleAmbient (exampleState 2 50 (Some (- 86400000)))
        (exampleDuty (Some 25200000) 6 4) [''part117'']) = []"
  using C5_wocl_warning_amended [of exampleAmbient "exampleState 2 50 (Some (- 86400000))"
      "exampleDuty (Some 10800000) 6 4" "[''part117'']"]
  by (simp add: engine_defs)

text \<open>
  C9 as stated fails in its last part: for the category list \<open>['part117', 'bogus']\<close>
  only \<open>part117\<close> is evaluated, yet \<open>checksPerformed\<close> is the whole list.
\<close>
theorem C9_checksPerformed_counterexample:
  "checksPerformed (validateDuty exampleAmbient (exampleState 2 50 (Some 0))
      (exampleDuty (Some 75600000) 6 4) [''part117'', ''bogus''])
     = [''part117'', ''bogus'']
   \<and> specEvaluatedCategories [''part117'', ''bogus''] = [''part117'']"
  by (simp add: engine_defs specEvaluatedCategories_def engineCategory_def)

text \<open>
  C9, amended. Names other than \<open>part117\<close> and \<open>fatigue_risk\<close> are ignored: the
  violations, the warnings and \<open>isLegal\<close> are those of the list with these names
  removed, and a list of such names only gives no violation, no warning and a legal
  verdict. \<open>checksPerformed\<close> is the requested list as it was passed, ignored names
  included.
\<close>
theorem C9_unknown_categories_amended:
  "violations (validateDuty amb s d cs)
     = violations (validateDuty amb s d (filter engineCategory cs))
   \<and> warnings (validateDuty amb s d cs)
     = warnings (validateDuty amb s d (filter engineCategory cs))
   \<and> isLegal (validateDuty amb s d cs)
     = isLegal (validateDuty amb s d (filter engineCategory cs))
   \<and> ((\<forall>c \<in> set cs. \<not> engineCategory c) \<longrightarrow>
        violations (validateDuty amb s d cs) = [] \<and> warnings (validateDuty amb s d cs) = []
        \<and> isLegal (validateDuty amb s d cs))
   \<and> checksPerformed (validateDuty amb s d cs) = cs"
proof -
  have a: "violations (validateDuty amb s d cs)
     = violations (validateDuty amb s d (filter engineCategory cs))"
    by (simp add: violations_validateDuty engineCategory_def)
  have b: "warnings (validateDuty amb s d cs)
     = warnings (validateDuty amb s d (filter engineCategory cs))"
    by (simp add: warnings_validateDuty engineCategory_def)
  have c: "isLegal (validateDuty amb s d cs)
     = isLegal (validateDuty amb s d (filter engineCategory cs))"
    by (simp add: isLegal_validateDuty a)
  have e: "(\<forall>c \<in> set cs. \<not> engineCategory c) \<longrightarrow>
        violations (validateDuty amb s d cs) = [] \<and> warnings (validateDuty amb s d cs) = []
        \<and> isLegal (validateDuty amb s d cs)"
    by (auto simp: isLegal_validateDuty violations_validateDuty warnings_validateDuty
        engineCategory_def)
  from a b c e checksPerformed_validateDuty [of amb s d cs] show ?thesis by blast
qed

text \<open>Two ignored names, on a duty that would fail under \<open>part117\<close>.\<close>
theorem C9_unknown_categories_amended_witness:
  "\<not> engineCategory ''cba'' \<and> \<not> engineCategory ''bogus''
   \<and> validateDuty exampleAmbient (exampleState 5 99 (Some 0))
        (exampleDuty (Some 10800000) 14 10) [''cba'', ''bogus'']
      = \<lparr>isLegal = True, violations = [], warnings = [],
          checksPerformed = [''cba'', ''bogus''], timestamp = Some 0,
          auditLogId = ''audit_0''\<rparr>"
  using C9_unknown_categories_amended [of exampleAmbient "exampleState 5 99 (Some 0)"
      "exampleDuty (Some 10800000) 14 10" "[''cba'', ''bogus'']"]
  by (simp add: engine_defs engineCategory_def)

section \<open>Properties of the replacement search\<close>

lemmas service_defs =
  findReplacementCrew_def maxResultsOf_def reservePool_def getCrewByState_def
  proposedDutyFor_def toISOString_def newDate_def plusMs_def calculateCrewCost_def
  calculateRankScore_def sortByRankScore_def slice0_def exampleReserve_def
  exampleMember_def exampleService_def exampleParams_def exampleClock_def

lemma isLegal_ambient:
  "isLegal (validateDuty a s d cs) = isLegal (validateDuty b s d cs)"
  by (simp add: isLegal_validateDuty violations_validateDuty)

lemma warnings_ambient:
  "warnings (validateDuty a s d cs) = warnings (validateDuty b s d cs)"
  by (simp add: warnings_validateDuty)

lemma calculateRankScore_cong:
  assumes "warnings l = warnings l'"
  shows "calculateRankScore s l c = calculateRankScore s l' c"
  unfolding calculateRankScore_def assms by (rule refl)

lemma calculateRankScore_ambient:
  "calculateRankScore s (validateDuty a s' d cs) c = calculateRankScore s (validateDuty b s' d cs) c"
  by (rule calculateRankScore_cong) (rule warnings_ambient)

lemma collectCandidates_no_duty:
  "proposedDutyFor dep = Inl e \<Longrightarrow>
   collectCandidates svc amb i dep pool =
     (if \<exists>r \<in> set pool. map_of (crewMembers svc) (employeeId r) \<noteq> None
      then Inl e else Inr [])"
  by (induction pool arbitrary: i) (auto split: option.splits)

lemma collectCandidates_all_illegal:
  "\<forall>r \<in> set pool. \<exists>duty. proposedDutyFor dep = Inr duty \<and>
       \<not> isLegal (validateDuty a r duty [''part117'', ''fatigue_risk'']) \<Longrightarrow>
   collectCandidates svc amb i dep pool = Inr []"
proof (induction pool arbitrary: i)
  case Nil
  show ?case by simp
next
  case (Cons r pool)
  from Cons.prems obtain duty where duty: "proposedDutyFor dep = Inr duty"
    and illegal: "\<not> isLegal (validateDuty a r duty [''part117'', ''fatigue_risk''])"
    by auto
  from illegal have "\<not> isLegal (validateDuty (amb i) r duty [''part117'', ''fatigue_risk''])"
    using isLegal_ambient [of a r duty _ "amb i"] by simp
  moreover have "collectCandidates svc amb j dep pool = Inr []" for j
    using Cons.IH Cons.prems by simp
  ultimately show ?case
    using duty by (simp split: option.splits)
qed

lemma collectCandidates_related:
  "rel_sum (=) (list_all2 (\<lambda>c c'. candidateId c = candidateId c' \<and> rankScore c = rankScore c'))
     (collectCandidates svc amb i dep pool) (collectCandidates svc amb' j dep pool)"
proof (induction pool arbitrary: i j)
  case Nil
  show ?case by simp
next
  case (Cons r pool)
  show ?case
  proof (cases "map_of (crewMembers svc) (employeeId r)")
    case None
    then show ?thesis using Cons.IH by simp
  next
    case (Some m)
    show ?thesis
    proof (cases "proposedDutyFor dep")
      case (Inl e)
      then show ?thesis using Some by simp
    next
      case (Inr duty)
      have leg: "isLegal (validateDuty (amb i) r duty [''part117'', ''fatigue_risk''])
        = isLegal (validateDuty (amb' j) r duty [''part117'', ''fatigue_risk''])"
        by (rule isLegal_ambient)
      have sc: "calculateRankScore r (validateDuty (amb i) r duty [''part117'', ''fatigue_risk''])
           (calculateCrewCost r duty)
        = calculateRankScore r (validateDuty (amb' j) r duty [''part117'', ''fatigue_risk''])
           (calculateCrewCost r duty)"
        by (rule calculateRankScore_ambient)
      have ih: "rel_sum (=) (list_all2 (\<lambda>c c'. candidateId c = candidateId c' \<and> rankScore c = rankScore c'))
         (collectCandidates svc amb (Suc i) dep pool) (collectCandidates svc amb' (Suc j) dep pool)"
        by (rule Cons.IH)
      show ?thesis
      proof (cases "isLegal (validateDuty (amb i) r duty [''part117'', ''fatigue_risk''])")
        case False
        with leg ih Some Inr show ?thesis by simp
      next
        case True
        with leg ih Some Inr sc show ?thesis
          by (cases "collectCandidates svc amb (Suc i) dep pool";
              cases "collectCandidates svc amb' (Suc j) dep pool")
             (simp_all add: Let_def)
      qed
    qed
  qed
qed

lemma collectCandidates_members:
  "collectCandidates svc amb i dep pool = Inr cs \<Longrightarrow> c \<in> set cs \<Longrightarrow>
   \<exists>r \<in> set pool. \<exists>m. map_of (crewMembers svc) (employeeId r) = Some m
      \<and> candidateId c = memberId m
      \<and> logisticsLocation (logistics c) = currentLocation r
      \<and> isLegal (legality c)"
proof (induction pool arbitrary: i cs)
  case Nil
  then show ?case by simp
next
  case (Cons r pool)
  show ?case
  proof (cases "map_of (crewMembers svc) (employeeId r)")
    case None
    with Cons.prems have "collectCandidates svc amb i dep pool = Inr cs" by simp
    from Cons.IH [OF this Cons.prems(2)] show ?thesis by auto
  next
    case (Some m)
    from Cons.prems(1) Some obtain duty where duty: "proposedDutyFor dep = Inr duty"
      by (cases "proposedDutyFor dep") simp_all
    show ?thesis
    proof (cases "isLegal (validateDuty (amb i) r duty [''part117'', ''fatigue_risk''])")
      case False
      with Cons.prems Some duty have "collectCandidates svc amb (Suc i) dep pool = Inr cs"
        by simp
      from Cons.IH [OF this Cons.prems(2)] show ?thesis by auto
    next
      case True
      from Cons.prems(1) Some duty True obtain cs' where
        rest: "collectCandidates svc amb (Suc i) dep pool = Inr cs'"
        by (cases "collectCandidates svc amb (Suc i) dep pool") (simp_all add: Let_def)
      with Cons.prems(1) Some duty True have
        cs: "cs = \<lparr>candidateId = memberId m,
                   name = lastName m @ '', '' @ firstName m,
                   legality = validateDuty (amb i) r duty [''part117'', ''fatigue_risk''],
                   logistics = \<lparr>logisticsLocation = currentLocation r,
                      positioningRequired = False, positioningFlight = None,
                      readyTimeUtc = dep, travelTimeMinutes = 0\<rparr>,
                   cost = calculateCrewCost r duty,
                   rankScore = calculateRankScore r
                     (validateDuty (amb i) r duty [''part117'', ''fatigue_risk''])
                     (calculateCrewCost r duty)\<rparr> # cs'"
        by (simp add: Let_def)
      show ?thesis
      proof (cases "c \<in> set cs'")
        case True
        from Cons.IH [OF rest this] show ?thesis by auto
      next
        case False
        with Cons.prems(2) cs True Some show ?thesis by auto
      qed
    qed
  qed
qed

lemma slice0_nonneg: "0 \<le> n \<Longrightarrow> slice0 xs n = take (nat n) xs"
  by (auto simp: slice0_def Let_def min_def)

lemma sorted_sortByRankScore:
  "sorted_wrt (\<lambda>a b. rankScore a \<ge> rankScore b) (sortByRankScore cs)"
proof -
  have "sorted (map (\<lambda>c. - rankScore c) (sort_key (\<lambda>c. - rankScore c) cs))"
    by (rule sorted_sort_key)
  then show ?thesis
    by (simp add: sortByRankScore_def sorted_map)
qed

lemma sortByRankScore_stable:
  "filter (\<lambda>c. rankScore c = k) (sortByRankScore cs) = filter (\<lambda>c. rankScore c = k) cs"
proof -
  have "filter (\<lambda>c. - rankScore c = - k) (sort_key (\<lambda>c. - rankScore c) cs)
      = filter (\<lambda>c. - rankScore c = - k) cs"
    by (rule sort_key_stable)
  then show ?thesis by (simp add: sortByRankScore_def)
qed

lemma take_sorted_best:
  assumes "sorted_wrt (\<lambda>a b. f a \<ge> (f b :: real)) xs"
    and "c \<in> set xs" and "c \<notin> set (take n xs)" and "r \<in> set (take n xs)"
  shows "f c \<le> f r"
proof -
  from assms(2,3) have "c \<in> set (drop n xs)"
    by (metis Un_iff append_take_drop_id set_append)
  moreover from assms(1) have "sorted_wrt (\<lambda>a b. f a \<ge> f b) (take n xs @ drop n xs)"
    by simp
  ultimately show ?thesis
    using assms(4) unfolding sorted_wrt_append by blast
qed

lemma insort_key_related:
  assumes "list_all2 R xs ys" and "R x y"
    and "\<And>a b. R a b \<Longrightarrow> f a = g b"
  shows "list_all2 R (insort_key f x xs) (insort_key g y ys)"
  using assms(1)
proof (induction rule: list_all2_induct)
  case Nil
  show ?case using assms(2) by simp
next
  case (Cons a as b bs)
  have "f a = g b" "f x = g y" using Cons.hyps(1) assms(2,3) by auto
  then show ?case using Cons assms(2) by simp
qed

lemma sort_key_related:
  assumes "list_all2 R xs ys" and "\<And>a b. R a b \<Longrightarrow> f a = g b"
  shows "list_all2 R (sort_key f xs) (sort_key g ys)"
  using assms(1)
proof (induction rule: list_all2_induct)
  case Nil
  show ?case by simp
next
  case (Cons a as b bs)
  then show ?case by (simp add: insort_key_related [where f = f and g = g] assms(2))
qed

lemma findReplacementCrew_related:
  "rel_sum (=) (list_all2 (\<lambda>c c'. candidateId c = candidateId c' \<and> rankScore c = rankScore c'))
     (findReplacementCrew svc amb p) (findReplacementCrew svc amb' p)"
proof -
  let ?R = "\<lambda>c c'. candidateId c = candidateId c' \<and> rankScore c = rankScore c'"
  let ?dep = "reqDepartureTimeUtc p"
  let ?pool = "reservePool svc p"
  have rel: "rel_sum (=) (list_all2 ?R)
     (collectCandidates svc amb 0 ?dep ?pool) (collectCandidates svc amb' 0 ?dep ?pool)"
    by (rule collectCandidates_related)
  show ?thesis
  proof (cases "collectCandidates svc amb 0 ?dep ?pool")
    case (Inl e)
    with rel have "collectCandidates svc amb' 0 ?dep ?pool = Inl e"
      by (cases "collectCandidates svc amb' 0 ?dep ?pool") simp_all
    with Inl show ?thesis by (simp add: findReplacementCrew_def)
  next
    case (Inr cs)
    with rel obtain cs' where cs': "collectCandidates svc amb' 0 ?dep ?pool = Inr cs'"
      and r: "list_all2 ?R cs cs'"
      by (cases "collectCandidates svc amb' 0 ?dep ?pool") simp_all
    have "list_all2 ?R (sortByRankScore cs) (sortByRankScore cs')"
      unfolding sortByRankScore_def
      by (rule sort_key_related [OF r]) simp
    then have "list_all2 ?R (slice0 (sortByRankScore cs) (maxResultsOf p))
        (slice0 (sortByRankScore cs') (maxResultsOf p))"
      by (simp add: slice0_def Let_def list_all2_lengthD)
    with Inr cs' show ?thesis by (simp add: findReplacementCrew_def)
  qed
qed

lemma slice0_subset: "set (slice0 xs n) \<subseteq> set xs"
  using set_take_subset by (fastforce simp: slice0_def Let_def)

lemma slice0_Nil: "slice0 [] n = []"
  by (simp add: slice0_def Let_def)

lemma reservePool_member:
  "r \<in> set (reservePool svc p) \<Longrightarrow>
   r \<in> set (getCrewByState svc RESERVE) \<and>
   (\<exists>m. map_of (crewMembers svc) (employeeId r) = Some m \<and> base m = reqBase p
        \<and> position m = reqPosition p \<and> reqAircraftType p \<in> set (aircraftTypes m))"
  by (auto simp: reservePool_def split: option.splits)

lemma reservePool_deadhead_flag:
  "reservePool svc (p\<lparr>reqIncludeDeadheadOptions := flag\<rparr>) = reservePool svc p"
  by (simp add: reservePool_def cong: option.case_cong)

lemma reservePool_store:
  "reservePool svc p = filter (eligibleReserve svc p) (map snd (crewStates svc))"
  by (auto simp: reservePool_def getCrewByState_def eligibleReserve_def
      intro!: filter_cong split: option.splits)

lemma proposedDutyFor_buildable:
  "(\<exists>duty. proposedDutyFor dep = Inr duty) \<longleftrightarrow> dutyBuildable dep"
  by (cases dep)
     (auto simp: proposedDutyFor_def toISOString_def newDate_def plusMs_def dutyBuildable_def
        split: if_splits sum.splits option.splits)

lemma collectCandidates_store:
  assumes "collectCandidates svc amb i (reqDepartureTimeUtc p) pool = Inr cs"
    and "\<forall>r \<in> set pool. map_of (crewMembers svc) (employeeId r) \<noteq> None"
  shows "list_all2 (\<lambda>c r. cameFrom svc c r \<and> rankScore c = reserveScore a p r)
           cs (filter (legalReserve a p) pool)"
  using assms
proof (induction pool arbitrary: i cs)
  case Nil
  then show ?case by simp
next
  case (Cons r pool)
  let ?dep = "reqDepartureTimeUtc p"
  let ?cats = "[''part117'', ''fatigue_risk'']"
  from Cons.prems(2) obtain m where m: "map_of (crewMembers svc) (employeeId r) = Some m"
    by auto
  from Cons.prems(1) m obtain duty where duty: "proposedDutyFor ?dep = Inr duty"
    by (cases "proposedDutyFor ?dep") simp_all
  have rest_m: "\<forall>r \<in> set pool. map_of (crewMembers svc) (employeeId r) \<noteq> None"
    using Cons.prems(2) by simp
  have leg: "legalReserve a p r = isLegal (validateDuty (amb i) r duty ?cats)"
    using isLegal_ambient [of a r duty ?cats "amb i"] by (simp add: legalReserve_def duty)
  show ?case
  proof (cases "isLegal (validateDuty (amb i) r duty ?cats)")
    case False
    with Cons.prems(1) m duty have "collectCandidates svc amb (Suc i) ?dep pool = Inr cs"
      by simp
    from Cons.IH [OF this rest_m] False leg show ?thesis by simp
  next
    case True
    from Cons.prems(1) m duty True obtain cs' where
      rest: "collectCandidates svc amb (Suc i) ?dep pool = Inr cs'"
      by (cases "collectCandidates svc amb (Suc i) ?dep pool") (simp_all add: Let_def)
    let ?c = "\<lparr>candidateId = memberId m,
                name = lastName m @ '', '' @ firstName m,
                legality = validateDuty (amb i) r duty ?cats,
                logistics = \<lparr>logisticsLocation = currentLocation r,
                   positioningRequired = False, positioningFlight = None,
                   readyTimeUtc = ?dep, travelTimeMinutes = 0\<rparr>,
                cost = calculateCrewCost r duty,
                rankScore = calculateRankScore r (validateDuty (amb i) r duty ?cats)
                  (calculateCrewCost r duty)\<rparr>"
    from Cons.prems(1) m duty True rest have cs: "cs = ?c # cs'"
      by (simp add: Let_def)
    have "cameFrom svc ?c r" by (simp add: cameFrom_def m)
    moreover have "rankScore ?c = reserveScore a p r"
      using calculateRankScore_ambient [of r "amb i" r duty ?cats "calculateCrewCost r duty" a]
      by (simp add: reserveScore_def duty)
    ultimately show ?thesis
      using Cons.IH [OF rest rest_m] cs True leg by simp
  qed
qed

lemma reservePool_has_member:
  "r \<in> set (reservePool svc p) \<Longrightarrow> map_of (crewMembers svc) (employeeId r) \<noteq> None"
  by (auto simp: reservePool_def split: option.splits)

lemma candidates_store:
  assumes "collectCandidates svc amb 0 (reqDepartureTimeUtc p) (reservePool svc p) = Inr cs"
  shows "list_all2 (\<lambda>c r. cameFrom svc c r \<and> rankScore c = reserveScore a p r) cs
           (filter (\<lambda>r. eligibleReserve svc p r \<and> legalReserve a p r)
              (map snd (crewStates svc)))"
proof -
  have "list_all2 (\<lambda>c r. cameFrom svc c r \<and> rankScore c = reserveScore a p r) cs
           (filter (legalReserve a p) (reservePool svc p))"
    using assms reservePool_has_member by (intro collectCandidates_store) auto
  then show ?thesis
    by (simp add: reservePool_store conj_commute)
qed

lemma list_all2_filter:
  assumes "list_all2 R xs ys" and "\<And>x y. R x y \<Longrightarrow> P x = Q y"
  shows "list_all2 R (filter P xs) (filter Q ys)"
  using assms(1)
proof (induction rule: list_all2_induct)
  case Nil
  show ?case by simp
next
  case (Cons x xs y ys)
  then show ?case using assms(2) [of x y] by simp
qed

lemma list_all2_prefix:
  assumes "list_all2 R xs ys" and "prefix zs xs"
  shows "\<exists>src. prefix src ys \<and> list_all2 R zs src"
proof -
  from assms(2) have zs: "zs = take (length zs) xs"
    by (metis append_eq_conv_conj prefix_def)
  have "list_all2 R (take (length zs) xs) (take (length zs) ys)"
    using assms(1) by (rule list_all2_takeI)
  with zs have "list_all2 R zs (take (length zs) ys)" by simp
  then show ?thesis using take_is_prefix by blast
qed

lemma list_all2_set1:
  "list_all2 R xs ys \<Longrightarrow> x \<in> set xs \<Longrightarrow> \<exists>y \<in> set ys. R x y"
  by (induction rule: list_all2_induct) auto

lemma list_all2_set2:
  "list_all2 R xs ys \<Longrightarrow> y \<in> set ys \<Longrightarrow> \<exists>x \<in> set xs. R x y"
  by (induction rule: list_all2_induct) auto

lemma checkRestRequirements_location:
  "checkRestRequirements (r\<lparr>currentLocation := l\<rparr>) d = checkRestRequirements r d"
proof -
  have "requiredRest (r\<lparr>currentLocation := l\<rparr>) = requiredRest r"
    by (simp add: requiredRest_def)
  moreover have "restHours (r\<lparr>currentLocation := l\<rparr>) d = restHours r d"
    by (simp add: restHours_def)
  ultimately show ?thesis by (simp add: checkRestRequirements_def split: option.splits)
qed

lemma checkCumulativeLimits_location:
  "checkCumulativeLimits (r\<lparr>currentLocation := l\<rparr>) d = checkCumulativeLimits r d"
  by (simp add: checkCumulativeLimits_def)

lemma assessFatigueRisk_location:
  "assessFatigueRisk (r\<lparr>currentLocation := l\<rparr>) d = assessFatigueRisk r d"
  by (simp add: assessFatigueRisk_def)

lemma validateDuty_location:
  "validateDuty a (r\<lparr>currentLocation := l\<rparr>) d cs = validateDuty a r d cs"
  by (simp add: validateDuty_def part117Violations_def checkRestRequirements_location
      checkCumulativeLimits_location assessFatigueRisk_location)

lemma calculateCrewCost_location:
  "calculateCrewCost (r\<lparr>currentLocation := l\<rparr>) d = calculateCrewCost r d"
  by (simp add: calculateCrewCost_def)

lemma calculateRankScore_location:
  "calculateRankScore (r\<lparr>currentLocation := l\<rparr>) v c = calculateRankScore r v c"
  unfolding calculateRankScore_def by simp

lemma collectCandidates_location:
  assumes "crewMembers svc' = crewMembers svc"
  shows "rel_sum (=)
     (list_all2 (\<lambda>c' c. candidateId c' = candidateId c \<and> rankScore c' = rankScore c
                    \<and> legality c' = legality c \<and> cost c' = cost c))
     (collectCandidates svc' amb i dep (map (\<lambda>s. s\<lparr>currentLocation := f s\<rparr>) pool))
     (collectCandidates svc amb i dep pool)"
proof (induction pool arbitrary: i)
  case Nil
  show ?case by simp
next
  case (Cons r pool)
  let ?cats = "[''part117'', ''fatigue_risk'']"
  show ?case
  proof (cases "map_of (crewMembers svc) (employeeId r)")
    case None
    then show ?thesis using Cons.IH assms by simp
  next
    case (Some m)
    show ?thesis
    proof (cases "proposedDutyFor dep")
      case (Inl e)
      then show ?thesis using Some assms by simp
    next
      case (Inr duty)
      show ?thesis
      proof (cases "isLegal (validateDuty (amb i) r duty ?cats)")
        case False
        with Some Inr assms Cons.IH [of "Suc i"] show ?thesis
          by (simp add: validateDuty_location)
      next
        case True
        with Some Inr assms Cons.IH [of "Suc i"] show ?thesis
          by (cases "collectCandidates svc amb (Suc i) dep pool";
              cases "collectCandidates svc' amb (Suc i) dep
                       (map (\<lambda>s. s\<lparr>currentLocation := f s\<rparr>) pool)")
             (simp_all add: Let_def validateDuty_location calculateCrewCost_location
                calculateRankScore_location)
      qed
    qed
  qed
qed

lemma reservePool_relocate:
  "reservePool (relocate f svc) p = map (\<lambda>s. s\<lparr>currentLocation := f s\<rparr>) (reservePool svc p)"
proof -
  have e: "eligibleReserve (relocate f svc) p (s\<lparr>currentLocation := f s\<rparr>)
      = eligibleReserve svc p s" for s
    by (simp add: eligibleReserve_def relocate_def)
  have "map snd (crewStates (relocate f svc))
      = map (\<lambda>s. s\<lparr>currentLocation := f s\<rparr>) (map snd (crewStates svc))"
    by (simp add: relocate_def case_prod_unfold)
  then show ?thesis
    by (simp add: reservePool_store filter_map o_def e)
qed

lemma findReplacementCrew_relocate:
  "map_sum id (map (\<lambda>c. (candidateId c, rankScore c, legality c, cost c)))
     (findReplacementCrew (relocate f svc) amb p)
   = map_sum id (map (\<lambda>c. (candidateId c, rankScore c, legality c, cost c)))
     (findReplacementCrew svc amb p)"
proof -
  let ?R = "\<lambda>c' c. candidateId c' = candidateId c \<and> rankScore c' = rankScore c
                    \<and> legality c' = legality c \<and> cost c' = cost c"
  let ?dep = "reqDepartureTimeUtc p"
  let ?c' = "collectCandidates (relocate f svc) amb 0 ?dep (reservePool (relocate f svc) p)"
  let ?c = "collectCandidates svc amb 0 ?dep (reservePool svc p)"
  have m: "crewMembers (relocate f svc) = crewMembers svc"
    by (simp add: relocate_def)
  have rel: "rel_sum (=) (list_all2 ?R) ?c' ?c"
    unfolding reservePool_relocate by (rule collectCandidates_location [OF m])
  show ?thesis
  proof (cases ?c)
    case (Inl e)
    with rel have "?c' = Inl e" by (cases ?c') simp_all
    with Inl show ?thesis by (simp add: findReplacementCrew_def)
  next
    case (Inr cs)
    with rel obtain cs' where cs': "?c' = Inr cs'" and r: "list_all2 ?R cs' cs"
      by (cases ?c') simp_all
    have "list_all2 ?R (sortByRankScore cs') (sortByRankScore cs)"
      unfolding sortByRankScore_def by (rule sort_key_related [OF r]) simp
    then have "list_all2 ?R (slice0 (sortByRankScore cs') (maxResultsOf p))
        (slice0 (sortByRankScore cs) (maxResultsOf p))"
      by (simp add: slice0_def Let_def list_all2_lengthD)
    then have "map (\<lambda>c. (candidateId c, rankScore c, legality c, cost c))
          (slice0 (sortByRankScore cs') (maxResultsOf p))
        = map (\<lambda>c. (candidateId c, rankScore c, legality c, cost c))
          (slice0 (sortByRankScore cs) (maxResultsOf p))"
      by (induction rule: list_all2_induct) simp_all
    with Inr cs' show ?thesis
      by (simp add: findReplacementCrew_def maxResultsOf_def relocate_def)
  qed
qed

text \<open>
  A departure time from which the proposed duty cannot be built: with a non-empty pool
  the search throws before any legality evaluation.
\<close>
lemma findReplacementCrew_unbuildable:
  assumes "\<not> dutyBuildable (reqDepartureTimeUtc p)" and "reservePool svc p \<noteq> []"
  shows "findReplacementCrew svc amb p = Inl RangeError"
proof -
  from assms(1) obtain e where d: "proposedDutyFor (reqDepartureTimeUtc p) = Inl e"
    using proposedDutyFor_buildable [of "reqDepartureTimeUtc p"]
    by (cases "proposedDutyFor (reqDepartureTimeUtc p)") auto
  have e: "e = RangeError" by (cases e) simp
  from assms(2) obtain r where r: "r \<in> set (reservePool svc p)"
    by (cases "reservePool svc p") auto
  with reservePool_has_member
  have "\<exists>r \<in> set (reservePool svc p). map_of (crewMembers svc) (employeeId r) \<noteq> None"
    by blast
  then show ?thesis
    using e by (simp add: findReplacementCrew_def collectCandidates_no_duty [OF d])
qed

text \<open>
  C6 as stated fails on ties. Two reserves with equal score 100, stored in the order
  \<open>10005\<close>, \<open>10002\<close>, are returned in that order: by insertion order, not by ascending
  identifier.
\<close>
theorem C6_tie_order_counterexample:
  "map_sum id (map (\<lambda>c. (candidateId c, rankScore c)))
     (findReplacementCrew
        (exampleService [(''10005'', ''ORD'', 50, 2), (''10002'', ''ORD'', 50, 2)])
        exampleClock (exampleParams (Some 136800000) (Some 5) None))
     = Inr [(''10005'', 100), (''10002'', 100)]
   \<and> ''10002'' < ''10005''
   \<and> \<not> specRankedOrder (projr (findReplacementCrew
        (exampleService [(''10005'', ''ORD'', 50, 2), (''10002'', ''ORD'', 50, 2)])
        exampleClock (exampleParams (Some 136800000) (Some 5) None)))"
  by (simp add: service_defs engine_defs specRankedOrder_def)

text \<open>
  C6, amended. When the legality filtering of a search yields the candidates \<open>cs\<close>
  (\<open>M\<close> of them) and the result cap \<open>N\<close> is not negative, \<open>findReplacementCrew\<close>
  returns exactly \<open>min N M\<close> of them, all legal, ordered by descending \<open>rankScore\<close>
  (equal scores adjacent), no dropped candidate scoring higher than a returned one.
  The candidates \<open>cs\<close> are, one for one and in the same order, the stored crew states
  that are eligible reserves and legal, in the order in which \<open>crewStates\<close> holds them
  (insertion order), each with the score of its reserve. Candidates of equal
  \<open>rankScore\<close> keep that order: for every score, the returned candidates of that score
  are made, in order, from an initial segment of the stored eligible legal reserves of
  that score, the later ones being the ones dropped. The identifiers and scores of the
  result, in order, are the same for every reading of the clock and of the random source.
\<close>
theorem C6_ranking_amended:
  assumes cs: "collectCandidates svc amb 0 (reqDepartureTimeUtc p) (reservePool svc p) = Inr cs"
    and n: "0 \<le> maxResultsOf p"
  shows "\<exists>rs. findReplacementCrew svc amb p = Inr rs
     \<and> length rs = min (nat (maxResultsOf p)) (length cs)
     \<and> set rs \<subseteq> set cs
     \<and> (\<forall>c \<in> set rs. isLegal (legality c))
     \<and> sorted_wrt (\<lambda>a b. rankScore a \<ge> rankScore b) rs
     \<and> (\<forall>c \<in> set cs. c \<notin> set rs \<longrightarrow> (\<forall>r \<in> set rs. rankScore c \<le> rankScore r))
     \<and> (\<forall>k. prefix (filter (\<lambda>c. rankScore c = k) rs) (filter (\<lambda>c. rankScore c = k) cs))
     \<and> list_all2 (\<lambda>c r. cameFrom svc c r \<and> rankScore c = reserveScore a p r) cs
           (filter (\<lambda>r. eligibleReserve svc p r \<and> legalReserve a p r)
              (map snd (crewStates svc)))
     \<and> (\<forall>k. \<exists>src.
            prefix src
              (filter (\<lambda>r. eligibleReserve svc p r \<and> legalReserve a p r
                           \<and> reserveScore a p r = k)
                 (map snd (crewStates svc)))
            \<and> list_all2 (cameFrom svc) (filter (\<lambda>c. rankScore c = k) rs) src)
     \<and> (\<forall>amb'. \<exists>rs'. findReplacementCrew svc amb' p = Inr rs'
            \<and> map candidateId rs' = map candidateId rs
            \<and> map rankScore rs' = map rankScore rs)"
proof -
  let ?n = "nat (maxResultsOf p)"
  let ?rs = "take ?n (sortByRankScore cs)"
  let ?R = "\<lambda>c r. cameFrom svc c r \<and> rankScore c = reserveScore a p r"
  let ?L = "filter (\<lambda>r. eligibleReserve svc p r \<and> legalReserve a p r)
              (map snd (crewStates svc))"
  have res: "findReplacementCrew svc amb p = Inr ?rs"
    using cs n by (simp add: findReplacementCrew_def slice0_nonneg)
  have len: "length ?rs = min ?n (length cs)"
    by (simp add: sortByRankScore_def)
  have sub: "set ?rs \<subseteq> set cs"
    using set_take_subset [of ?n "sortByRankScore cs"] by (simp add: sortByRankScore_def)
  have leg: "\<forall>c \<in> set ?rs. isLegal (legality c)"
    using collectCandidates_members [OF cs] sub by blast
  have srt: "sorted_wrt (\<lambda>a b. rankScore a \<ge> rankScore b) ?rs"
    using sorted_sortByRankScore [of cs] by (rule sorted_wrt_take)
  have best: "\<forall>c \<in> set cs. c \<notin> set ?rs \<longrightarrow> (\<forall>r \<in> set ?rs. rankScore c \<le> rankScore r)"
  proof (intro ballI impI)
    fix c r assume "c \<in> set cs" "c \<notin> set ?rs" "r \<in> set ?rs"
    moreover from \<open>c \<in> set cs\<close> have "c \<in> set (sortByRankScore cs)"
      by (simp add: sortByRankScore_def)
    ultimately show "rankScore c \<le> rankScore r"
      using take_sorted_best [OF sorted_sortByRankScore [of cs]] by blast
  qed
  have ties: "prefix (filter (\<lambda>c. rankScore c = k) ?rs) (filter (\<lambda>c. rankScore c = k) cs)"
    for k
  proof -
    have "prefix (filter (\<lambda>c. rankScore c = k) ?rs)
            (filter (\<lambda>c. rankScore c = k) (sortByRankScore cs))"
      by (rule filter_mono_prefix) (rule take_is_prefix)
    then show ?thesis by (simp add: sortByRankScore_stable)
  qed
  have store: "list_all2 ?R cs ?L"
    using cs by (rule candidates_store)
  have store_ties: "\<exists>src.
            prefix src
              (filter (\<lambda>r. eligibleReserve svc p r \<and> legalReserve a p r
                           \<and> reserveScore a p r = k)
                 (map snd (crewStates svc)))
            \<and> list_all2 (cameFrom svc) (filter (\<lambda>c. rankScore c = k) ?rs) src" for k
  proof -
    have "list_all2 ?R (filter (\<lambda>c. rankScore c = k) cs)
            (filter (\<lambda>r. reserveScore a p r = k) ?L)"
      using store by (rule list_all2_filter) simp
    from list_all2_prefix [OF this ties [of k]] obtain src where
      pre: "prefix src (filter (\<lambda>r. reserveScore a p r = k) ?L)"
      and rel: "list_all2 ?R (filter (\<lambda>c. rankScore c = k) ?rs) src"
      by blast
    from rel have "list_all2 (cameFrom svc) (filter (\<lambda>c. rankScore c = k) ?rs) src"
      by (rule list_all2_mono) simp
    moreover have "filter (\<lambda>r. reserveScore a p r = k) ?L
        = filter (\<lambda>r. eligibleReserve svc p r \<and> legalReserve a p r
                           \<and> reserveScore a p r = k) (map snd (crewStates svc))"
      by (auto intro!: filter_cong)
    ultimately show ?thesis using pre by auto
  qed
  have det: "\<forall>amb'. \<exists>rs'. findReplacementCrew svc amb' p = Inr rs'
            \<and> map candidateId rs' = map candidateId ?rs
            \<and> map rankScore rs' = map rankScore ?rs"
  proof
    fix amb'
    have rel: "rel_sum (=)
        (list_all2 (\<lambda>c c'. candidateId c = candidateId c' \<and> rankScore c = rankScore c'))
        (findReplacementCrew svc amb p) (findReplacementCrew svc amb' p)"
      by (rule findReplacementCrew_related)
    with res obtain rs' where rs': "findReplacementCrew svc amb' p = Inr rs'"
      and r: "list_all2 (\<lambda>c c'. candidateId c = candidateId c' \<and> rankScore c = rankScore c')
                ?rs rs'"
      by (cases "findReplacementCrew svc amb' p") simp_all
    from r have "map candidateId rs' = map candidateId ?rs \<and> map rankScore rs' = map rankScore ?rs"
      by (induction rule: list_all2_induct) simp_all
    with rs' show "\<exists>rs'. findReplacementCrew svc amb' p = Inr rs'
            \<and> map candidateId rs' = map candidateId ?rs
            \<and> map rankScore rs' = map rankScore ?rs"
      by blast
  qed
  from res len sub leg srt best ties store store_ties det show ?thesis by blast
qed

text \<open>
  Three legal reserves with scores 95, 100, 95 and a cap of 2: the reserve of score 95
  that the store holds first is the one returned.
\<close>
theorem C6_ranking_amended_witness:
  "\<not> isl (collectCandidates
        (exampleService [(''10005'', ''ORD'', 80, 3), (''10002'', ''ORD'', 50, 2),
                         (''10004'', ''ORD'', 80, 3)])
        exampleClock 0
        (reqDepartureTimeUtc (exampleParams (Some 136800000) (Some 2) None))
        (reservePool
           (exampleService [(''10005'', ''ORD'', 80, 3), (''10002'', ''ORD'', 50, 2),
                            (''10004'', ''ORD'', 80, 3)])
           (exampleParams (Some 136800000) (Some 2) None)))
   \<and> 0 \<le> maxResultsOf (exampleParams (Some 136800000) (Some 2) None)
   \<and> map fst (crewStates
        (exampleService [(''10005'', ''ORD'', 80, 3), (''10002'', ''ORD'', 50, 2),
                         (''10004'', ''ORD'', 80, 3)]))
       = [''10005'', ''10002'', ''10004'']
   \<and> map_sum id (map (\<lambda>c. (candidateId c, rankScore c)))
       (findReplacementCrew
          (exampleService [(''10005'', ''ORD'', 80, 3), (''10002'', ''ORD'', 50, 2),
                           (''10004'', ''ORD'', 80, 3)])
          exampleClock (exampleParams (Some 136800000) (Some 2) None))
       = Inr [(''10002'', 100), (''10005'', 95)]"
proof -
  let ?svc = "exampleService [(''10005'', ''ORD'', 80, 3), (''10002'', ''ORD'', 50, 2),
                              (''10004'', ''ORD'', 80, 3)]"
  let ?p = "exampleParams (Some 136800000) (Some 2) None"
  let ?c = "collectCandidates ?svc exampleClock 0 (reqDepartureTimeUtc ?p) (reservePool ?svc ?p)"
  have ok: "\<not> isl ?c"
    by (simp add: service_defs engine_defs)
  then have h1: "?c = Inr (projr ?c)" by simp
  have h2: "0 \<le> maxResultsOf ?p"
    by (simp add: maxResultsOf_def exampleParams_def)
  have st: "map fst (crewStates ?svc) = [''10005'', ''10002'', ''10004'']"
    by (simp add: exampleService_def)
  have ev: "map_sum id (map (\<lambda>c. (candidateId c, rankScore c)))
       (findReplacementCrew ?svc exampleClock ?p) = Inr [(''10002'', 100), (''10005'', 95)]"
    by (simp add: service_defs engine_defs)
  from C6_ranking_amended [OF h1 h2] ok h2 st ev show ?thesis by blast
qed

text \<open>
  C7 as stated fails: with \<open>includeDeadheadOptions\<close> false and base ORD, a reserve
  based at ORD whose current location is LAX is returned.
\<close>
theorem C7_deadhead_counterexample:
  "reqIncludeDeadheadOptions (exampleParams (Some 136800000) None (Some False)) = Some False
   \<and> reqBase (exampleParams (Some 136800000) None (Some False)) = ''ORD''
   \<and> map_sum id (map (\<lambda>c. (candidateId c, logisticsLocation (logistics c))))
       (findReplacementCrew (exampleService [(''10002'', ''LAX'', 50, 2)])
          exampleClock (exampleParams (Some 136800000) None (Some False)))
       = Inr [(''10002'', ''LAX'')]"
  by (simp add: service_defs engine_defs)

text \<open>
  C7, amended. \<open>includeDeadheadOptions\<close> has no effect on \<open>findReplacementCrew\<close>: the
  result is the same for every value of the flag. The candidate pool is exactly the
  stored crew states that are RESERVE and whose member record has the requested home
  base, position and aircraft type; the current location is not filtered on. Moving crew
  members to any other locations changes neither who is returned, nor in which order,
  nor with which score, verdict and cost. Every returned candidate is made from an
  eligible, legal reserve of the store and reports that reserve's current location in
  \<open>logistics\<close>; and when the cap is at least the size of the store, every eligible and
  legal reserve, wherever it is, is among the returned candidates.
\<close>
theorem C7_deadhead_flag_amended:
  "findReplacementCrew svc amb (p\<lparr>reqIncludeDeadheadOptions := flag\<rparr>)
     = findReplacementCrew svc amb p
   \<and> reservePool svc p = filter (eligibleReserve svc p) (map snd (crewStates svc))
   \<and> map_sum id (map (\<lambda>c. (candidateId c, rankScore c, legality c, cost c)))
        (findReplacementCrew (relocate f svc) amb p)
      = map_sum id (map (\<lambda>c. (candidateId c, rankScore c, legality c, cost c)))
        (findReplacementCrew svc amb p)
   \<and> (\<forall>rs. findReplacementCrew svc amb p = Inr rs \<longrightarrow>
        (\<forall>c \<in> set rs. \<exists>r \<in> set (map snd (crewStates svc)).
            eligibleReserve svc p r \<and> legalReserve a p r \<and> cameFrom svc c r))
   \<and> (\<forall>rs. findReplacementCrew svc amb p = Inr rs
          \<and> int (length (crewStates svc)) \<le> maxResultsOf p \<longrightarrow>
        (\<forall>r \<in> set (map snd (crewStates svc)).
            eligibleReserve svc p r \<and> legalReserve a p r \<longrightarrow>
            (\<exists>c \<in> set rs. cameFrom svc c r)))"
proof -
  let ?L = "filter (\<lambda>r. eligibleReserve svc p r \<and> legalReserve a p r)
              (map snd (crewStates svc))"
  let ?R = "\<lambda>c r. cameFrom svc c r \<and> rankScore c = reserveScore a p r"
  have a: "findReplacementCrew svc amb (p\<lparr>reqIncludeDeadheadOptions := flag\<rparr>)
     = findReplacementCrew svc amb p"
    by (simp add: findReplacementCrew_def reservePool_deadhead_flag maxResultsOf_def)
  have split: "\<exists>cs. collectCandidates svc amb 0 (reqDepartureTimeUtc p) (reservePool svc p) = Inr cs
       \<and> rs = slice0 (sortByRankScore cs) (maxResultsOf p)"
    if "findReplacementCrew svc amb p = Inr rs" for rs
    using that
    by (cases "collectCandidates svc amb 0 (reqDepartureTimeUtc p) (reservePool svc p)")
       (simp_all add: findReplacementCrew_def)
  have snd: "\<forall>rs. findReplacementCrew svc amb p = Inr rs \<longrightarrow>
        (\<forall>c \<in> set rs. \<exists>r \<in> set (map snd (crewStates svc)).
            eligibleReserve svc p r \<and> legalReserve a p r \<and> cameFrom svc c r)"
  proof (intro allI impI ballI)
    fix rs c
    assume res: "findReplacementCrew svc amb p = Inr rs" and c: "c \<in> set rs"
    from split [OF res] obtain cs where
      cs: "collectCandidates svc amb 0 (reqDepartureTimeUtc p) (reservePool svc p) = Inr cs"
      and rs: "rs = slice0 (sortByRankScore cs) (maxResultsOf p)"
      by blast
    from c rs have "c \<in> set (sortByRankScore cs)"
      using slice0_subset by fastforce
    then have "c \<in> set cs" by (simp add: sortByRankScore_def)
    from list_all2_set1 [OF candidates_store [OF cs] this]
    obtain r where "r \<in> set ?L" "?R c r" by blast
    then show "\<exists>r \<in> set (map snd (crewStates svc)).
            eligibleReserve svc p r \<and> legalReserve a p r \<and> cameFrom svc c r"
      by auto
  qed
  have cmp: "\<forall>rs. findReplacementCrew svc amb p = Inr rs
          \<and> int (length (crewStates svc)) \<le> maxResultsOf p \<longrightarrow>
        (\<forall>r \<in> set (map snd (crewStates svc)).
            eligibleReserve svc p r \<and> legalReserve a p r \<longrightarrow>
            (\<exists>c \<in> set rs. cameFrom svc c r))"
  proof (intro allI impI ballI)
    fix rs r
    assume h: "findReplacementCrew svc amb p = Inr rs
          \<and> int (length (crewStates svc)) \<le> maxResultsOf p"
      and r: "r \<in> set (map snd (crewStates svc))"
      and e: "eligibleReserve svc p r \<and> legalReserve a p r"
    from split h obtain cs where
      cs: "collectCandidates svc amb 0 (reqDepartureTimeUtc p) (reservePool svc p) = Inr cs"
      and rs: "rs = slice0 (sortByRankScore cs) (maxResultsOf p)"
      by blast
    have rel: "list_all2 ?R cs ?L" using cs by (rule candidates_store)
    then have "length cs = length ?L" by (rule list_all2_lengthD)
    also have "\<dots> \<le> length (crewStates svc)"
      using length_filter_le [of _ "map snd (crewStates svc)"] by simp
    finally have "int (length cs) \<le> maxResultsOf p" using h by simp
    then have "rs = sortByRankScore cs"
      using rs by (simp add: slice0_def Let_def sortByRankScore_def)
    then have set_rs: "set rs = set cs" by (simp add: sortByRankScore_def)
    from r e have "r \<in> set ?L" by simp
    from list_all2_set2 [OF rel this] set_rs
    show "\<exists>c \<in> set rs. cameFrom svc c r" by blast
  qed
  from a reservePool_store [of svc p] findReplacementCrew_relocate [of f svc amb p] snd cmp
  show ?thesis by blast
qed

text \<open>
  The same search with the flag false and true, and with everybody moved to LAX: both
  reserves are returned, the one at LAX included.
\<close>
theorem C7_deadhead_flag_amended_witness:
  "findReplacementCrew (exampleService [(''10002'', ''LAX'', 50, 2), (''10004'', ''ORD'', 50, 2)])
      exampleClock (exampleParams (Some 136800000) None (Some False))
     = findReplacementCrew (exampleService [(''10002'', ''LAX'', 50, 2), (''10004'', ''ORD'', 50, 2)])
         exampleClock (exampleParams (Some 136800000) None (Some True))
   \<and> map_sum id (map (\<lambda>c. (candidateId c, logisticsLocation (logistics c))))
       (findReplacementCrew (exampleService [(''10002'', ''LAX'', 50, 2), (''10004'', ''ORD'', 50, 2)])
          exampleClock (exampleParams (Some 136800000) None (Some True)))
       = Inr [(''10002'', ''LAX''), (''10004'', ''ORD'')]
   \<and> map_sum id (map (\<lambda>c. (candidateId c, logisticsLocation (logistics c))))
       (findReplacementCrew
          (relocate (\<lambda>s. ''LAX'')
             (exampleService [(''10002'', ''LAX'', 50, 2), (''10004'', ''ORD'', 50, 2)]))
          exampleClock (exampleParams (Some 136800000) None (Some True)))
       = Inr [(''10002'', ''LAX''), (''10004'', ''LAX'')]
   \<and> int (length (crewStates
         (exampleService [(''10002'', ''LAX'', 50, 2), (''10004'', ''ORD'', 50, 2)])))
       \<le> maxResultsOf (exampleParams (Some 136800000) None (Some True))"
proof -
  let ?svc = "exampleService [(''10002'', ''LAX'', 50, 2), (''10004'', ''ORD'', 50, 2)]"
  have p: "exampleParams (Some 136800000) None (Some False)
      = (exampleParams (Some 136800000) None (Some True))\<lparr>reqIncludeDeadheadOptions := Some False\<rparr>"
    by (simp add: exampleParams_def)
  have ev: "map_sum id (map (\<lambda>c. (candidateId c, logisticsLocation (logistics c))))
       (findReplacementCrew ?svc exampleClock (exampleParams (Some 136800000) None (Some True)))
       = Inr [(''10002'', ''LAX''), (''10004'', ''ORD'')]"
    by (simp add: service_defs engine_defs)
  have mv: "map_sum id (map (\<lambda>c. (candidateId c, logisticsLocation (logistics c))))
       (findReplacementCrew (relocate (\<lambda>s. ''LAX'') ?svc) exampleClock
          (exampleParams (Some 136800000) None (Some True)))
       = Inr [(''10002'', ''LAX''), (''10004'', ''LAX'')]"
    by (simp add: service_defs engine_defs relocate_def)
  have cap: "int (length (crewStates ?svc))
       \<le> maxResultsOf (exampleParams (Some 136800000) None (Some True))"
    by (simp add: exampleService_def maxResultsOf_def exampleParams_def)
  from C7_deadhead_flag_amended [where svc = ?svc
      and amb = exampleClock and p = "exampleParams (Some 136800000) None (Some True)"
      and flag = "Some False"] ev mv cap
  show ?thesis unfolding p by blast
qed

text \<open>
  C8 as stated fails. A pool of one reserve over the 28-day cap, which no proposed duty
  of the search makes legal, and a departure time that does not parse: no candidate
  survives, yet the search does not return the empty list but throws a \<open>RangeError\<close>
  (\<open>toISOString\<close> of an Invalid Date). The same happens at the last instant of the Date
  range, whose release time is out of range.
\<close>
theorem C8_unbuildable_duty_counterexample:
  "map employeeId (reservePool (exampleService [(''10002'', ''ORD'', 98, 2)])
      (exampleParams None None None)) = [''10002'']
   \<and> \<not> isLegal (validateDuty exampleAmbient (exampleReserve ''10002'' ''ORD'' 98 2)
         (exampleDuty None (13 / 2) 5) [''part117'', ''fatigue_risk''])
   \<and> findReplacementCrew (exampleService [(''10002'', ''ORD'', 98, 2)])
        exampleClock (exampleParams None None None) = Inl RangeError
   \<and> findReplacementCrew (exampleService [(''10002'', ''ORD'', 98, 2)])
        exampleClock (exampleParams (Some 8640000000000000) None None) = Inl RangeError"
  by (simp add: service_defs engine_defs)

text \<open>
  C8, amended. When the proposed duty can be built from the departure time (a valid
  instant whose report time, one hour before, and release time, five and a half hours
  after, are within the range of a Date) and no reserve of the pool is legal,
  \<open>findReplacementCrew\<close> returns the empty list as a normal result (\<open>Inr []\<close>, not an
  error); so it does, whatever the departure time, when the pool for the requested base,
  position and aircraft type is empty. The condition cannot be dropped: the empty list
  is returned only if the duty can be built or the pool is empty.
\<close>
theorem C8_no_legal_candidate_amended:
  "(dutyBuildable (reqDepartureTimeUtc p)
      \<and> (\<forall>r \<in> set (reservePool svc p). \<not> legalReserve a p r) \<longrightarrow>
      findReplacementCrew svc amb p = Inr [])
   \<and> (reservePool svc p = [] \<longrightarrow> findReplacementCrew svc amb p = Inr [])
   \<and> (findReplacementCrew svc amb p = Inr [] \<longrightarrow>
        dutyBuildable (reqDepartureTimeUtc p) \<or> reservePool svc p = [])"
proof -
  have a: "findReplacementCrew svc amb p = Inr []"
    if "dutyBuildable (reqDepartureTimeUtc p)
      \<and> (\<forall>r \<in> set (reservePool svc p). \<not> legalReserve a p r)"
  proof -
    from that obtain duty where d: "proposedDutyFor (reqDepartureTimeUtc p) = Inr duty"
      using proposedDutyFor_buildable by blast
    with that have "\<forall>r \<in> set (reservePool svc p). \<exists>duty.
        proposedDutyFor (reqDepartureTimeUtc p) = Inr duty
        \<and> \<not> isLegal (validateDuty a r duty [''part117'', ''fatigue_risk''])"
      by (simp add: legalReserve_def)
    from collectCandidates_all_illegal [OF this, of svc amb 0] show ?thesis
      by (simp add: findReplacementCrew_def sortByRankScore_def slice0_Nil)
  qed
  have b: "findReplacementCrew svc amb p = Inr []" if "reservePool svc p = []"
    using that by (simp add: findReplacementCrew_def sortByRankScore_def slice0_Nil)
  have c: "dutyBuildable (reqDepartureTimeUtc p) \<or> reservePool svc p = []"
    if "findReplacementCrew svc amb p = Inr []"
    using that findReplacementCrew_unbuildable [of p svc amb] by auto
  from a b c show ?thesis by blast
qed

text \<open>
  A pool of one reserve over the 28-day cap at a valid departure time, and an empty store
  at a departure time that does not parse: both searches return the empty list.
\<close>
theorem C8_no_legal_candidate_amended_witness:
  "dutyBuildable (reqDepartureTimeUtc (exampleParams (Some 136800000) None None))
   \<and> map employeeId (reservePool (exampleService [(''10002'', ''ORD'', 98, 2)])
      (exampleParams (Some 136800000) None None)) = [''10002'']
   \<and> \<not> legalReserve exampleAmbient (exampleParams (Some 136800000) None None)
         (exampleReserve ''10002'' ''ORD'' 98 2)
   \<and> findReplacementCrew (exampleService [(''10002'', ''ORD'', 98, 2)])
        exampleClock (exampleParams (Some 136800000) None None) = Inr []
   \<and> reservePool (exampleService []) (exampleParams None None None) = []
   \<and> findReplacementCrew (exampleService [])
        exampleClock (exampleParams None None None) = Inr []"
  using C8_no_legal_candidate_amended [where svc = "exampleService [(''10002'', ''ORD'', 98, 2)]"
      and p = "exampleParams (Some 136800000) None None" and a = exampleAmbient
      and amb = exampleClock]
    C8_no_legal_candidate_amended [where svc = "exampleService []"
      and p = "exampleParams None None None" and a = exampleAmbient
      and amb = exampleClock]
  by (simp add: service_defs engine_defs legalReserve_def dutyBuildable_def)

section \<open>Properties of the crew swap\<close>

lemmas swap_defs =
  executeCrewSwap_def getCrewStatus_def swapChanges_def swapNotifications_def
  calculateSwapCost_def newOriginalState_def newReplacementState_def updateCrewState_def
  exampleSwapInput_def exampleSwapAmbient_def exampleService_def exampleReserve_def
  exampleMember_def exampleState_def

text \<open>Without \<open>dryRun\<close> the two new states are written.\<close>
lemma executeCrewSwap_commit:
  assumes "getCrewStatus svc (originalCrewId input) = Some originalCrew"
    and "getCrewStatus svc (replacementCrewId input) = Some replacementCrew"
    and "dryRun input \<noteq> Some True"
  shows "snd (executeCrewSwap input amb svc)
     = updateCrewState (updateCrewState svc (newOriginalState input originalCrew))
         (newReplacementState input replacementCrew)"
  using assms by (cases "dryRun input") (simp_all add: executeCrewSwap_def Let_def)

text \<open>
  C10. When both crew ids are in the store and \<open>dryRun\<close> is true, \<open>executeCrewSwap\<close>
  returns a preview (status pending, no rollback, the planned changes and notifications)
  and the service it leaves is the service it was given: no state of any crew member
  changes.
\<close>
theorem C10_dry_run_frame:
  assumes "getCrewStatus svc (originalCrewId input) = Some originalCrew"
    and "getCrewStatus svc (replacementCrewId input) = Some replacementCrew"
    and "dryRun input = Some True"
  shows "(\<exists>pv. fst (executeCrewSwap input amb svc) = SwapDryRun pv
            \<and> previewStatus pv = TxPending
            \<and> \<not> previewRollbackAvailable pv
            \<and> previewDryRun pv
            \<and> previewChanges pv
                = swapChanges input (clockAtEntry amb) originalCrew replacementCrew
            \<and> previewNotifications pv = swapNotifications input)
     \<and> snd (executeCrewSwap input amb svc) = svc
     \<and> (\<forall>i. getCrewStatus (snd (executeCrewSwap input amb svc)) i = getCrewStatus svc i)"
  using assms by (simp add: executeCrewSwap_def Let_def)

text \<open>
  A dry run on a store of two reserves leaves the store as it was; the same swap without
  \<open>dryRun\<close> puts the replacement on duty.
\<close>
theorem C10_dry_run_frame_witness:
  "getCrewStatus (exampleService [(''10005'', ''ORD'', 50, 2), (''10002'', ''ORD'', 50, 2)])
      (originalCrewId (exampleSwapInput (Some True)))
     = Some (exampleReserve ''10005'' ''ORD'' 50 2)
   \<and> getCrewStatus (exampleService [(''10005'', ''ORD'', 50, 2), (''10002'', ''ORD'', 50, 2)])
      (replacementCrewId (exampleSwapInput (Some True)))
     = Some (exampleReserve ''10002'' ''ORD'' 50 2)
   \<and> dryRun (exampleSwapInput (Some True)) = Some True
   \<and> snd (executeCrewSwap (exampleSwapInput (Some True)) exampleSwapAmbient
        (exampleService [(''10005'', ''ORD'', 50, 2), (''10002'', ''ORD'', 50, 2)]))
     = exampleService [(''10005'', ''ORD'', 50, 2), (''10002'', ''ORD'', 50, 2)]
   \<and> (case fst (executeCrewSwap (exampleSwapInput (Some True)) exampleSwapAmbient
        (exampleService [(''10005'', ''ORD'', 50, 2), (''10002'', ''ORD'', 50, 2)])) of
        SwapDryRun pv \<Rightarrow>
          previewStatus pv = TxPending \<and> \<not> previewRollbackAvailable pv
          \<and> map entityId (previewChanges pv)
              = [''AA1001-10005'', ''AA1001-10002'', ''10005'', ''10002'']
          \<and> map recipientId (previewNotifications pv) = [''10005'', ''10002'']
      | _ \<Rightarrow> False)
   \<and> map (\<lambda>(i, s). (i, stateType s))
        (crewStates (snd (executeCrewSwap (exampleSwapInput None) exampleSwapAmbient
          (exampleService [(''10005'', ''ORD'', 50, 2), (''10002'', ''ORD'', 50, 2)]))))
     = [(''10005'', RESERVE), (''10002'', DUTY)]"
proof -
  let ?svc = "exampleService [(''10005'', ''ORD'', 50, 2), (''10002'', ''ORD'', 50, 2)]"
  have h1: "getCrewStatus ?svc (originalCrewId (exampleSwapInput (Some True)))
     = Some (exampleReserve ''10005'' ''ORD'' 50 2)"
    by (simp add: getCrewStatus_def exampleService_def exampleSwapInput_def)
  have h2: "getCrewStatus ?svc (replacementCrewId (exampleSwapInput (Some True)))
     = Some (exampleReserve ''10002'' ''ORD'' 50 2)"
    by (simp add: getCrewStatus_def exampleService_def exampleSwapInput_def)
  have h3: "dryRun (exampleSwapInput (Some True)) = Some True"
    by (simp add: exampleSwapInput_def)
  have ev: "(case fst (executeCrewSwap (exampleSwapInput (Some True)) exampleSwapAmbient ?svc) of
        SwapDryRun pv \<Rightarrow>
          previewStatus pv = TxPending \<and> \<not> previewRollbackAvailable pv
          \<and> map entityId (previewChanges pv)
              = [''AA1001-10005'', ''AA1001-10002'', ''10005'', ''10002'']
          \<and> map recipientId (previewNotifications pv) = [''10005'', ''10002'']
      | _ \<Rightarrow> False)"
    by (simp add: swap_defs Let_def)
  have live: "map (\<lambda>(i, s). (i, stateType s))
        (crewStates (snd (executeCrewSwap (exampleSwapInput None) exampleSwapAmbient ?svc)))
     = [(''10005'', RESERVE), (''10002'', DUTY)]"
    by (simp add: swap_defs Let_def)
  from C10_dry_run_frame [OF h1 h2 h3, of exampleSwapAmbient] h1 h2 h3 ev live
  show ?thesis by blast
qed

end
